theory Spec2Isabelle
  imports Main
begin

section \<open>Errors\<close>

text \<open>
  Every \<^verbatim>\<open>raise\<close> of \<^verbatim>\<open>torch/_utils.py\<close> that the rebuild functions can reach is a
  constructor of \<open>error\<close>:
  \<^item> \<open>RebuildNotImplemented l\<close>: \<^verbatim>\<open>NotImplementedError(f"rebuilding sparse tensor for layout {layout}")\<close>;
  \<^item> \<open>ValidateNotImplemented l\<close>: \<^verbatim>\<open>NotImplementedError(f"_validate_loaded_sparse_tensors for layout `{t.layout}`")\<close>;
  \<^item> \<open>UnsupportedSchemeError\<close>: \<^verbatim>\<open>RuntimeError(f"Can't deserialize quantized tensor with qscheme {qscheme}")\<close>;
  \<^item> \<open>StateError\<close>: \<^verbatim>\<open>RuntimeError(f"Invalid serialized state: {state}")\<close>;
  \<^item> \<open>UnpackError\<close>: the \<^verbatim>\<open>ValueError\<close> of a tuple unpacking whose tuple has the wrong length;
  \<^item> \<open>IndexError\<close>: \<^verbatim>\<open>quantizer_params[0]\<close> on an empty tuple;
  \<^item> \<open>AttributeError\<close>: \<^verbatim>\<open>.items()\<close> on a value that is not a dict;
  \<^item> \<open>ArgTypeError\<close>, \<open>StructuralError\<close>, \<open>ShapeError\<close>: raised inside the tensor runtime
    (an argument of the wrong type, a sparse invariant that does not hold, a size and
    stride that do not fit the storage).
\<close>

datatype layout =
  Strided | SparseCoo | SparseCsr | SparseCsc | SparseBsr | SparseBsc | Mkldnn | Jagged

datatype error =
    RebuildNotImplemented layout
  | ValidateNotImplemented layout
  | UnsupportedSchemeError
  | StateError
  | UnpackError
  | IndexError
  | AttributeError
  | ArgTypeError
  | StructuralError
  | ShapeError

section \<open>Sparse tensors and the pending-validation list\<close>

text \<open>
  The elements of the \<^verbatim>\<open>data\<close> tuple handed to \<^verbatim>\<open>_rebuild_sparse_tensor\<close>: tensors
  (of an arbitrary representation \<open>'t\<close>), a size, a bool or \<^verbatim>\<open>None\<close>.
\<close>

datatype 't sparse_arg = ANone | ABool bool | ASize "int list" | ATensor 't

text \<open>
  A sparse tensor as the runtime holds it. \<open>CooTensor indices values size is_coalesced\<close>
  has layout \<^verbatim>\<open>torch.sparse_coo\<close>; \<open>CompressedTensor layout compressed_indices
  plain_indices values size\<close> has the layout it was built with.
\<close>

datatype 't sparse_tensor =
    CooTensor 't 't "int list" bool
  | CompressedTensor layout 't 't 't "int list"

fun layout_of :: "'t sparse_tensor \<Rightarrow> layout" where
  "layout_of (CooTensor i v s c) = SparseCoo"
| "layout_of (CompressedTensor l ci pi v s) = l"

text \<open>
  The structural validators \<^verbatim>\<open>torch._validate_sparse_coo_tensor_args\<close> and
  \<^verbatim>\<open>torch._validate_sparse_compressed_tensor_args\<close> belong to the native runtime. They
  are parameters of the model: \<open>True\<close> when the invariants hold, and the runtime raises
  (\<open>StructuralError\<close>) when they do not.
\<close>

type_synonym 't coo_validator = "'t \<Rightarrow> 't \<Rightarrow> int list \<Rightarrow> bool \<Rightarrow> bool"
type_synonym 't compressed_validator = "'t \<Rightarrow> 't \<Rightarrow> 't \<Rightarrow> int list \<Rightarrow> layout \<Rightarrow> bool"

text \<open>
  Modelled from the spec: \<^verbatim>\<open>torch.sparse_coo_tensor\<close> is native code. The spec says that
  the rebuild call "constructs an unvalidated coordinate-sparse tensor", and that
  validation "would normally occur on user-facing construction": with
  \<^verbatim>\<open>check_invariants=True\<close> the constructor runs the validator, with
  \<^verbatim>\<open>check_invariants=False\<close> it stores its arguments. \<^verbatim>\<open>is_coalesced=None\<close> gives a
  tensor that is not marked coalesced.
\<close>

fun sparse_coo_tensor ::
  "'t coo_validator \<Rightarrow> 't sparse_arg \<Rightarrow> 't sparse_arg \<Rightarrow> 't sparse_arg \<Rightarrow> bool \<Rightarrow> 't sparse_arg
     \<Rightarrow> error + 't sparse_tensor" where
  "sparse_coo_tensor vcoo (ATensor i) (ATensor v) (ASize s) check_invariants (ABool c) =
     (if check_invariants \<and> \<not> vcoo i v s c then Inl StructuralError
      else Inr (CooTensor i v s c))"
| "sparse_coo_tensor vcoo (ATensor i) (ATensor v) (ASize s) check_invariants ANone =
     (if check_invariants \<and> \<not> vcoo i v s False then Inl StructuralError
      else Inr (CooTensor i v s False))"
| "sparse_coo_tensor vcoo indices values size' check_invariants is_coalesced = Inl ArgTypeError"

text \<open>
  Modelled from the spec: \<^verbatim>\<open>torch.sparse_compressed_tensor\<close> is native code; "same
  deferred-validation pattern for CSR/CSC/BSR/BSC".
\<close>

fun sparse_compressed_tensor ::
  "'t compressed_validator \<Rightarrow> 't sparse_arg \<Rightarrow> 't sparse_arg \<Rightarrow> 't sparse_arg \<Rightarrow> 't sparse_arg
     \<Rightarrow> layout \<Rightarrow> bool \<Rightarrow> error + 't sparse_tensor" where
  "sparse_compressed_tensor vcomp (ATensor ci) (ATensor pi) (ATensor v) (ASize s) l check_invariants =
     (if check_invariants \<and> \<not> vcomp ci pi v s l then Inl StructuralError
      else Inr (CompressedTensor l ci pi v s))"
| "sparse_compressed_tensor vcomp compressed_indices plain_indices values size' l check_invariants =
     Inl ArgTypeError"

text \<open>
  \<^verbatim>\<open>_rebuild_sparse_tensor(layout, data)\<close>. The global list
  \<^verbatim>\<open>_sparse_tensors_to_validate\<close> is passed in and returned. A call that raises leaves
  the list as it was: the only \<^verbatim>\<open>append\<close> follows the construction.
\<close>

definition rebuild_sparse_tensor ::
  "'t coo_validator \<Rightarrow> 't compressed_validator \<Rightarrow> layout \<Rightarrow> 't sparse_arg list
     \<Rightarrow> 't sparse_tensor list \<Rightarrow> (error + 't sparse_tensor) \<times> 't sparse_tensor list" where
  "rebuild_sparse_tensor vcoo vcomp layout data pending =
     (if layout = SparseCoo then
        (case (if length data = 3
               then (case data of [indices, values, size'] \<Rightarrow> Inr (indices, values, size', ANone)
                                | _ \<Rightarrow> Inl UnpackError)
               else (case data of [indices, values, size', is_coalesced] \<Rightarrow>
                                    Inr (indices, values, size', is_coalesced)
                                | _ \<Rightarrow> Inl UnpackError)) of
           Inl e \<Rightarrow> (Inl e, pending)
         | Inr (indices, values, size', is_coalesced) \<Rightarrow>
             (case sparse_coo_tensor vcoo indices values size' False is_coalesced of
                Inl e \<Rightarrow> (Inl e, pending)
              | Inr result \<Rightarrow> (Inr result, pending @ [result])))
      else if layout \<in> {SparseCsr, SparseCsc, SparseBsr, SparseBsc} then
        (case data of
           [compressed_indices, plain_indices, values, size'] \<Rightarrow>
             (case sparse_compressed_tensor vcomp compressed_indices plain_indices values size'
                     layout False of
                Inl e \<Rightarrow> (Inl e, pending)
              | Inr result \<Rightarrow> (Inr result, pending @ [result]))
         | _ \<Rightarrow> (Inl UnpackError, pending))
      else (Inl (RebuildNotImplemented layout), pending))"

text \<open>
  One iteration of the loop of \<^verbatim>\<open>_validate_loaded_sparse_tensors\<close>. For a compressed
  layout the source reads \<^verbatim>\<open>crow_indices()/col_indices()\<close> (CSR, BSR) or
  \<^verbatim>\<open>ccol_indices()/row_indices()\<close> (CSC, BSC): both pairs are the compressed and the
  plain indices the tensor was built from.
\<close>

definition validate_one ::
  "'t coo_validator \<Rightarrow> 't compressed_validator \<Rightarrow> 't sparse_tensor \<Rightarrow> error option" where
  "validate_one vcoo vcomp t =
     (if layout_of t = SparseCoo then
        (case t of
           CooTensor i v s c \<Rightarrow> if vcoo i v s c then None else Some StructuralError
         | CompressedTensor l ci pi v s \<Rightarrow> Some AttributeError)
      else if layout_of t \<in> {SparseCsr, SparseCsc, SparseBsr, SparseBsc} then
        (case t of
           CompressedTensor l ci pi v s \<Rightarrow>
             (let (compressed_indices, plain_indices) =
                    (if layout_of t \<in> {SparseCsr, SparseBsr} then (ci, pi) else (ci, pi))
              in if vcomp compressed_indices plain_indices v s (layout_of t) then None
                 else Some StructuralError)
         | CooTensor i v s c \<Rightarrow> Some AttributeError)
      else Some (ValidateNotImplemented (layout_of t)))"

text \<open>The \<^verbatim>\<open>for\<close> loop: the first exception leaves the loop.\<close>

fun validate_each ::
  "'t coo_validator \<Rightarrow> 't compressed_validator \<Rightarrow> 't sparse_tensor list \<Rightarrow> error option" where
  "validate_each vcoo vcomp [] = None"
| "validate_each vcoo vcomp (t # ts) =
     (case validate_one vcoo vcomp t of
        Some e \<Rightarrow> Some e
      | None \<Rightarrow> validate_each vcoo vcomp ts)"

text \<open>
  \<^verbatim>\<open>try: <loop> finally: _sparse_tensors_to_validate.clear()\<close>: the body's outcome
  (\<open>None\<close> for a normal return, \<open>Some e\<close> for the exception that propagates) and the
  list after the \<^verbatim>\<open>finally\<close> clause.
\<close>

definition try_finally :: "('s \<Rightarrow> 'r \<times> 's) \<Rightarrow> ('s \<Rightarrow> 's) \<Rightarrow> 's \<Rightarrow> 'r \<times> 's" where
  "try_finally body cleanup s = (case body s of (r, s') \<Rightarrow> (r, cleanup s'))"

definition validate_loaded_sparse_tensors ::
  "'t coo_validator \<Rightarrow> 't compressed_validator \<Rightarrow> 't sparse_tensor list
     \<Rightarrow> error option \<times> 't sparse_tensor list" where
  "validate_loaded_sparse_tensors vcoo vcomp =
     try_finally (\<lambda>pending. (validate_each vcoo vcomp pending, pending)) (\<lambda>pending. [])"

text \<open>
  A load pass: a sequence of \<^verbatim>\<open>_rebuild_sparse_tensor\<close> calls, each with any layout and
  any data. A call that raises does not stop the model of the pass (the list is what
  matters); \<open>load_pass\<close> returns the pending list after the calls.
\<close>

fun load_pass ::
  "'t coo_validator \<Rightarrow> 't compressed_validator \<Rightarrow> (layout \<times> 't sparse_arg list) list
     \<Rightarrow> 't sparse_tensor list \<Rightarrow> 't sparse_tensor list" where
  "load_pass vcoo vcomp [] pending = pending"
| "load_pass vcoo vcomp ((l, data) # calls) pending =
     load_pass vcoo vcomp calls (snd (rebuild_sparse_tensor vcoo vcomp l data pending))"

text \<open>
  Modelled from the spec: a sample structural validator ("index bounds"), for tensors
  given as lists of rows of integers: every index of dimension \<open>d\<close> lies in
  \<open>[0, size[d])\<close>. It instantiates the validator parameters at concrete inputs.
\<close>

definition coo_index_bounds :: "int list list coo_validator" where
  "coo_index_bounds indices values size' is_coalesced =
     (length indices = length size' \<and>
      list_all (\<lambda>(row, n). list_all (\<lambda>x. 0 \<le> x \<and> x < n) row) (zip indices size'))"

definition compressed_index_bounds :: "int list list compressed_validator" where
  "compressed_index_bounds compressed_indices plain_indices values size' l =
     (length size' = 2 \<and>
      list_all (list_all (\<lambda>x. 0 \<le> x \<and> x < (if l \<in> {SparseCsr, SparseBsr} then size' ! 1 else size' ! 0)))
        plain_indices)"

section \<open>Dense tensors\<close>

datatype dtype = Half | Float | Double | Int32 | Long | Bool | QInt8 | QUInt8 | QInt32

datatype device = CPU | CUDA nat | Meta

text \<open>
  A \<^verbatim>\<open>TypedStorage\<close> carries a dtype and wraps an \<^verbatim>\<open>UntypedStorage\<close>, which carries the
  device. \<^verbatim>\<open>storage.device\<close> of a typed storage is the device of the storage it wraps.
\<close>

record untyped_storage =
  us_device :: device
  us_nbytes :: nat

record typed_storage =
  ts_dtype :: dtype
  ts_untyped_storage :: untyped_storage

definition ts_device :: "typed_storage \<Rightarrow> device" where
  "ts_device storage = us_device (ts_untyped_storage storage)"

text \<open>
  The fields of a tensor that the rebuild functions read or write. \<open>t_storage\<close> is
  \<open>None\<close> while the tensor still has the storage it was allocated with.
  \<open>t_backward_hooks\<close> is the attribute \<^verbatim>\<open>_backward_hooks\<close> (\<^verbatim>\<open>None\<close> on a fresh tensor);
  the hooks are opaque (\<open>'h\<close>). \<open>t_metadata\<close> is what \<^verbatim>\<open>get_tensor_metadata\<close> reports.
\<close>

record 'h tensor =
  t_dtype :: dtype
  t_device :: device
  t_storage :: "untyped_storage option"
  t_storage_offset :: int
  t_size :: "int list"
  t_stride :: "int list"
  t_requires_grad :: bool
  t_backward_hooks :: "'h option"
  t_metadata :: "(string \<times> bool) list"

fun contiguous_strides :: "int list \<Rightarrow> int list" where
  "contiguous_strides [] = []"
| "contiguous_strides (n # ns) = prod_list (map (max 1) ns) # contiguous_strides ns"

text \<open>
  Modelled from the spec: \<^verbatim>\<open>torch.tensor([], dtype=..., device=...)\<close> is native code;
  "allocate a zero-size tensor with the storage's dtype/device".
\<close>

definition torch_tensor_empty :: "dtype \<Rightarrow> device \<Rightarrow> 'h tensor" where
  "torch_tensor_empty dt dev =
     \<lparr>t_dtype = dt, t_device = dev, t_storage = None, t_storage_offset = 0, t_size = [0],
      t_stride = [1], t_requires_grad = False, t_backward_hooks = None, t_metadata = []\<rparr>"

text \<open>
  Modelled from the spec: \<^verbatim>\<open>Tensor.set_\<close> is native code; "bind it to the given storage
  region at \<^verbatim>\<open>offset\<close> with shape \<^verbatim>\<open>size\<close> and strides \<^verbatim>\<open>stride\<close>. Fails with
  \<^verbatim>\<open>ShapeError\<close> if \<^verbatim>\<open>stride\<close>/\<^verbatim>\<open>size\<close> are incompatible with the storage's element
  count". The compatibility test itself is the parameter \<open>fits\<close>.
\<close>

type_synonym fits = "untyped_storage \<Rightarrow> dtype \<Rightarrow> int \<Rightarrow> int list \<Rightarrow> int list \<Rightarrow> bool"

definition set_storage ::
  "fits \<Rightarrow> ('h, 'z) tensor_scheme \<Rightarrow> untyped_storage \<Rightarrow> int \<Rightarrow> int list \<Rightarrow> int list
     \<Rightarrow> error + ('h, 'z) tensor_scheme" where
  "set_storage fits t source storage_offset size' stride =
     (if fits source (t_dtype t) storage_offset size' stride
      then Inr (t\<lparr>t_storage := Some source, t_storage_offset := storage_offset,
                  t_size := size', t_stride := stride\<rparr>)
      else Inl ShapeError)"

text \<open>\<^verbatim>\<open>_rebuild_tensor(storage, storage_offset, size, stride)\<close>.\<close>

definition rebuild_tensor ::
  "fits \<Rightarrow> typed_storage \<Rightarrow> int \<Rightarrow> int list \<Rightarrow> int list \<Rightarrow> error + 'h tensor" where
  "rebuild_tensor fits storage storage_offset size' stride =
     (let t = torch_tensor_empty (ts_dtype storage) (us_device (ts_untyped_storage storage))
      in set_storage fits t (ts_untyped_storage storage) storage_offset size' stride)"

text \<open>
  \<^verbatim>\<open>set_tensor_metadata(tensor, metadata)\<close>: both assertions hold by the types of the
  model; the native setter \<^verbatim>\<open>torch._C._set_tensor_metadata\<close> is the parameter
  \<open>set_metadata_native\<close>.
\<close>

definition set_tensor_metadata ::
  "('h tensor \<Rightarrow> (string \<times> bool) list \<Rightarrow> 'h tensor) \<Rightarrow> 'h tensor \<Rightarrow> (string \<times> bool) list
     \<Rightarrow> 'h tensor" where
  "set_tensor_metadata set_metadata_native tensor metadata = set_metadata_native tensor metadata"

text \<open>
  The truth value of the \<^verbatim>\<open>metadata\<close> argument in \<^verbatim>\<open>if metadata:\<close>: \<^verbatim>\<open>None\<close> and the
  empty dict are false.
\<close>

fun metadata_truthy :: "(string \<times> bool) list option \<Rightarrow> bool" where
  "metadata_truthy None = False"
| "metadata_truthy (Some m) = (m \<noteq> [])"

text \<open>
  \<^verbatim>\<open>_rebuild_tensor_v2(storage, storage_offset, size, stride, requires_grad,
  backward_hooks, metadata=None)\<close>.
\<close>

definition rebuild_tensor_v2 ::
  "fits \<Rightarrow> ('h tensor \<Rightarrow> (string \<times> bool) list \<Rightarrow> 'h tensor) \<Rightarrow> typed_storage \<Rightarrow> int
     \<Rightarrow> int list \<Rightarrow> int list \<Rightarrow> bool \<Rightarrow> 'h option \<Rightarrow> (string \<times> bool) list option
     \<Rightarrow> error + 'h tensor" where
  "rebuild_tensor_v2 fits set_metadata_native storage storage_offset size' stride requires_grad
       backward_hooks metadata =
     (case rebuild_tensor fits storage storage_offset size' stride of
        Inl e \<Rightarrow> Inl e
      | Inr tensor \<Rightarrow>
          (let tensor1 = tensor\<lparr>t_requires_grad := requires_grad\<rparr>;
               tensor2 = (if metadata_truthy metadata
                          then set_tensor_metadata set_metadata_native tensor1 (the metadata)
                          else tensor1)
           in Inr (tensor2\<lparr>t_backward_hooks := backward_hooks\<rparr>)))"

section \<open>Quantized tensors\<close>

datatype qscheme =
  PerTensorAffine | PerChannelAffine | PerTensorSymmetric | PerChannelSymmetric
  | PerChannelAffineFloatQParams

text \<open>
  The elements of the \<^verbatim>\<open>quantizer_params\<close> tuple: a scheme tag, a number, a Python list
  of numbers, or a tensor of numbers with its dtype and device. The numbers are carried
  as they are (\<open>'n\<close>); their conversion to the dtype is the runtime's.
\<close>

datatype 'n qparam =
  QScheme qscheme | QNumber 'n | QList "'n list" | QTensor dtype device "'n list"

fun is_list :: "'n qparam \<Rightarrow> bool" where
  "is_list (QList xs) = True"
| "is_list _ = False"

text \<open>
  Modelled from the spec: \<^verbatim>\<open>torch.tensor(list, dtype=..., device=...)\<close> is native code;
  "promoting list-typed scale/zero-point inputs to typed vectors on the storage's
  device".
\<close>

fun torch_tensor :: "'n qparam \<Rightarrow> dtype \<Rightarrow> device \<Rightarrow> 'n qparam" where
  "torch_tensor (QList xs) dt dev = QTensor dt dev xs"
| "torch_tensor (QNumber x) dt dev = QTensor dt dev [x]"
| "torch_tensor (QTensor dt' dev' xs) dt dev = QTensor dt dev xs"
| "torch_tensor (QScheme q) dt dev = QScheme q"

datatype 'n quantizer =
    NoQuantizer
  | PerTensorAffineQuantizer 'n 'n
  | PerChannelAffineQuantizer dtype device "'n list" dtype device "'n list" 'n

record ('h, 'n) qtensor = "'h tensor" +
  qt_quantizer :: "'n quantizer"

text \<open>
  Modelled from the spec: \<^verbatim>\<open>torch._empty_affine_quantized\<close> and
  \<^verbatim>\<open>torch._empty_per_channel_affine_quantized\<close> are native code; "per-tensor-affine
  allocates with a scalar scale/zero-point; per-channel-affine allocates with
  per-channel scale/zero-point vectors". An argument that is not a number
  (respectively a tensor) is an \<open>ArgTypeError\<close>.
\<close>

definition empty_quantized :: "int list \<Rightarrow> dtype \<Rightarrow> device \<Rightarrow> 'n quantizer \<Rightarrow> ('h, 'n) qtensor" where
  "empty_quantized size' dt dev q =
     \<lparr>t_dtype = dt, t_device = dev, t_storage = None, t_storage_offset = 0, t_size = size',
      t_stride = contiguous_strides size', t_requires_grad = False, t_backward_hooks = None,
      t_metadata = [], qt_quantizer = q\<rparr>"

fun empty_affine_quantized ::
  "int list \<Rightarrow> 'n qparam \<Rightarrow> 'n qparam \<Rightarrow> dtype \<Rightarrow> device \<Rightarrow> error + ('h, 'n) qtensor" where
  "empty_affine_quantized size' (QNumber scale) (QNumber zero_point) dt dev =
     Inr (empty_quantized size' dt dev (PerTensorAffineQuantizer scale zero_point))"
| "empty_affine_quantized size' scale zero_point dt dev = Inl ArgTypeError"

fun empty_per_channel_affine_quantized ::
  "int list \<Rightarrow> 'n qparam \<Rightarrow> 'n qparam \<Rightarrow> 'n qparam \<Rightarrow> dtype \<Rightarrow> device
     \<Rightarrow> error + ('h, 'n) qtensor" where
  "empty_per_channel_affine_quantized size' (QTensor sdt sdev scales) (QTensor zdt zdev zero_points)
       (QNumber axis) dt dev =
     Inr (empty_quantized size' dt dev
            (PerChannelAffineQuantizer sdt sdev scales zdt zdev zero_points axis))"
| "empty_per_channel_affine_quantized size' scales zero_points axis dt dev = Inl ArgTypeError"

text \<open>
  \<^verbatim>\<open>_rebuild_qtensor(storage, storage_offset, size, stride, quantizer_params,
  requires_grad, backward_hooks)\<close>. \<^verbatim>\<open>tensor.set_(storage, ...)\<close> is given the typed
  storage; the tensor is bound to the untyped storage it wraps.
\<close>

definition rebuild_qtensor ::
  "fits \<Rightarrow> typed_storage \<Rightarrow> int \<Rightarrow> int list \<Rightarrow> int list \<Rightarrow> 'n qparam list \<Rightarrow> bool \<Rightarrow> 'h option
     \<Rightarrow> error + ('h, 'n) qtensor" where
  "rebuild_qtensor fits storage storage_offset size' stride quantizer_params requires_grad
       backward_hooks =
     (case quantizer_params of
        [] \<Rightarrow> Inl IndexError
      | qscheme # _ \<Rightarrow>
          (case
             (if qscheme = QScheme PerTensorAffine then
                (case quantizer_params of
                   [_, scale, zero_point] \<Rightarrow>
                     empty_affine_quantized size' scale zero_point (ts_dtype storage)
                       (ts_device storage)
                 | _ \<Rightarrow> Inl UnpackError)
              else if qscheme \<in> {QScheme PerChannelAffine, QScheme PerChannelAffineFloatQParams} then
                (case quantizer_params of
                   [_, scales, zero_points, axis] \<Rightarrow>
                     (let (scales', zero_points') =
                            (if is_list scales \<and> is_list zero_points then
                               (if qscheme = QScheme PerChannelAffine then
                                  (torch_tensor scales Double (ts_device storage),
                                   torch_tensor zero_points Long (ts_device storage))
                                else
                                  (torch_tensor scales Float (ts_device storage),
                                   torch_tensor zero_points Float (ts_device storage)))
                             else (scales, zero_points))
                      in empty_per_channel_affine_quantized size' scales' zero_points' axis
                           (ts_dtype storage) (ts_device storage))
                 | _ \<Rightarrow> Inl UnpackError)
              else Inl UnsupportedSchemeError) of
             Inl e \<Rightarrow> Inl e
           | Inr tensor \<Rightarrow>
               (case set_storage fits tensor (ts_untyped_storage storage) storage_offset size'
                       stride of
                  Inl e \<Rightarrow> Inl e
                | Inr tensor1 \<Rightarrow>
                    Inr (tensor1\<lparr>t_requires_grad := requires_grad,
                                 t_backward_hooks := backward_hooks\<rparr>))))"

section \<open>Parameters and object state\<close>

text \<open>
  The \<^verbatim>\<open>state\<close> argument of \<^verbatim>\<open>_set_obj_state\<close>: \<^verbatim>\<open>None\<close>, a dict (its items in
  iteration order) or a tuple of such values.
\<close>

datatype 'v obj_state = SNone | SDict "(string \<times> 'v) list" | STuple "'v obj_state list"

text \<open>
  A \<^verbatim>\<open>torch.nn.Parameter\<close>: the tensor it wraps, its flag, its hooks attribute, and the
  attributes that \<^verbatim>\<open>setattr\<close> has put on it.
\<close>

record ('d, 'h, 'v) parameter =
  p_data :: 'd
  p_requires_grad :: bool
  p_backward_hooks :: "'h option"
  p_attrs :: "string \<Rightarrow> 'v option"

text \<open>
  Modelled from the spec: \<^verbatim>\<open>torch.nn.Parameter(data, requires_grad)\<close> is defined outside
  this file; "wrap a tensor as a trainable-parameter variant".
\<close>

definition Parameter :: "'d \<Rightarrow> bool \<Rightarrow> ('d, 'h, 'v) parameter" where
  "Parameter data requires_grad =
     \<lparr>p_data = data, p_requires_grad = requires_grad, p_backward_hooks = None,
      p_attrs = (\<lambda>k. None)\<rparr>"

definition setattr :: "('d, 'h, 'v) parameter \<Rightarrow> string \<times> 'v \<Rightarrow> ('d, 'h, 'v) parameter" where
  "setattr obj kv = obj\<lparr>p_attrs := (p_attrs obj)(fst kv \<mapsto> snd kv)\<rparr>"

text \<open>The loop \<^verbatim>\<open>for k, v in items: setattr(obj, k, v)\<close>.\<close>

fun setattr_items ::
  "(string \<times> 'v) list \<Rightarrow> ('d, 'h, 'v) parameter \<Rightarrow> ('d, 'h, 'v) parameter" where
  "setattr_items [] obj = obj"
| "setattr_items (kv # items) obj = setattr_items items (setattr obj kv)"

fun state_truthy :: "'v obj_state \<Rightarrow> bool" where
  "state_truthy SNone = False"
| "state_truthy (SDict items) = (items \<noteq> [])"
| "state_truthy (STuple xs) = (xs \<noteq> [])"

text \<open>
  \<^verbatim>\<open>if st: for k, v in st.items(): setattr(obj, k, v)\<close>: the object after the statement
  and the exception it raised, if any (a non-empty tuple has no \<^verbatim>\<open>items\<close>).
\<close>

fun apply_state ::
  "'v obj_state \<Rightarrow> ('d, 'h, 'v) parameter \<Rightarrow> ('d, 'h, 'v) parameter \<times> error option" where
  "apply_state (SDict items) obj = (if items \<noteq> [] then setattr_items items obj else obj, None)"
| "apply_state SNone obj = (obj, None)"
| "apply_state (STuple xs) obj = (obj, if xs \<noteq> [] then Some AttributeError else None)"

text \<open>
  \<^verbatim>\<open>_set_obj_state(obj, state)\<close> mutates \<^verbatim>\<open>obj\<close> in place: the result is the object
  after the call, with the exception that left the call, if any.
\<close>

definition set_obj_state ::
  "('d, 'h, 'v) parameter \<Rightarrow> 'v obj_state \<Rightarrow> ('d, 'h, 'v) parameter \<times> error option" where
  "set_obj_state obj state =
     (case (case state of
              STuple xs \<Rightarrow> if \<not> length xs = 2 then Inl StateError else Inr (xs ! 0, xs ! 1)
            | _ \<Rightarrow> Inr (state, SNone)) of
        Inl e \<Rightarrow> (obj, Some e)
      | Inr (dict_state, slots_state) \<Rightarrow>
          (case apply_state dict_state obj of
             (obj1, Some e) \<Rightarrow> (obj1, Some e)
           | (obj1, None) \<Rightarrow> apply_state slots_state obj1))"

text \<open>\<^verbatim>\<open>_rebuild_parameter(data, requires_grad, backward_hooks)\<close>.\<close>

definition rebuild_parameter :: "'d \<Rightarrow> bool \<Rightarrow> 'h option \<Rightarrow> ('d, 'h, 'v) parameter" where
  "rebuild_parameter data requires_grad backward_hooks =
     (Parameter data requires_grad)\<lparr>p_backward_hooks := backward_hooks\<rparr>"

text \<open>\<^verbatim>\<open>_rebuild_parameter_with_state(data, requires_grad, backward_hooks, state)\<close>.\<close>

definition rebuild_parameter_with_state ::
  "'d \<Rightarrow> bool \<Rightarrow> 'h option \<Rightarrow> 'v obj_state \<Rightarrow> ('d, 'h, 'v) parameter \<times> error option" where
  "rebuild_parameter_with_state data requires_grad backward_hooks state =
     (let param = (Parameter data requires_grad)\<lparr>p_backward_hooks := backward_hooks\<rparr>
      in set_obj_state param state)"

section \<open>ExceptionWrapper\<close>

text \<open>
  A Python string is a plain \<^verbatim>\<open>str\<close> or an instance of the subclass
  \<^verbatim>\<open>KeyErrorMessage\<close>; both hold characters.
\<close>

datatype py_str = Str string | KeyErrorMessage string

fun chars :: "py_str \<Rightarrow> string" where
  "chars (Str s) = s"
| "chars (KeyErrorMessage s) = s"

text \<open>
  \<^verbatim>\<open>repr\<close> of a plain \<^verbatim>\<open>str\<close>, as CPython computes it for ASCII text: the text between
  quotes (double quotes when it holds a single quote and no double quote), with the
  quote, the backslash, tab, newline, carriage return and the other control characters
  escaped. Characters from 128 on are left as they are.
\<close>

definition hex_digit :: "nat \<Rightarrow> char" where
  "hex_digit n = ''0123456789abcdef'' ! (n mod 16)"

definition escape_char :: "char \<Rightarrow> char \<Rightarrow> string" where
  "escape_char quote c =
     (if c = quote \<or> c = CHR 0x5C then [CHR 0x5C, c]
      else if c = CHR 0x09 then [CHR 0x5C, CHR ''t'']
      else if c = CHR 0x0A then [CHR 0x5C, CHR ''n'']
      else if c = CHR 0x0D then [CHR 0x5C, CHR ''r'']
      else if of_char c < (32::nat) \<or> of_char c = (127::nat) then
        [CHR 0x5C, CHR ''x'', hex_digit (of_char c div 16), hex_digit (of_char c)]
      else [c])"

definition str_repr :: "string \<Rightarrow> string" where
  "str_repr s =
     (let quote = (if CHR 0x27 \<in> set s \<and> CHR 0x22 \<notin> set s then CHR 0x22 else CHR 0x27)
      in quote # concat (map (escape_char quote) s) @ [quote])"

text \<open>
  \<^verbatim>\<open>class KeyErrorMessage(str): def __repr__(self): return self\<close>.
\<close>

fun py_repr :: "py_str \<Rightarrow> string" where
  "py_repr (KeyErrorMessage s) = s"
| "py_repr (Str s) = str_repr s"

text \<open>
  How a constructor is called: \<^verbatim>\<open>exc_type(msg)\<close> or \<^verbatim>\<open>exc_type(message=msg)\<close>; and how a
  constructor call can fail: with a \<^verbatim>\<open>TypeError\<close> (the arguments do not fit the
  signature) or with another exception, each with its text.
\<close>

datatype ctor_args = Positional py_str | KeywordMessage py_str

datatype ctor_failure = CtorTypeError string | CtorOtherError string string

fun ctor_arg :: "ctor_args \<Rightarrow> py_str" where
  "ctor_arg (Positional m) = m"
| "ctor_arg (KeywordMessage m) = m"

text \<open>
  An exception class, as far as \<^verbatim>\<open>reraise\<close> and the reader of the raised error look
  at it: its \<^verbatim>\<open>__name__\<close>, whether \<^verbatim>\<open>getattr(cls, "message", None)\<close> is true, what a
  call of the class does (\<open>None\<close>: it returns an instance), and the text \<^verbatim>\<open>str(e)\<close> of the
  instance that a call with these arguments returns. The last is the class's own: its
  \<^verbatim>\<open>__init__\<close> and \<^verbatim>\<open>__str__\<close> may keep the argument, change it or drop it.
  \<^verbatim>\<open>KeyError\<close> is the builtin class, which the source compares with.
\<close>

record class_desc =
  cls_name :: string
  cls_message :: bool
  cls_call :: "ctor_args \<Rightarrow> ctor_failure option"
  cls_str :: "ctor_args \<Rightarrow> string"

datatype exc_class = KeyError | Class class_desc

fun class_name :: "exc_class \<Rightarrow> string" where
  "class_name KeyError = ''KeyError''"
| "class_name (Class c) = cls_name c"

text \<open>\<^verbatim>\<open>self.exc_type == KeyError\<close>: classes are compared by identity.\<close>

fun is_KeyError :: "exc_class \<Rightarrow> bool" where
  "is_KeyError KeyError = True"
| "is_KeyError (Class c) = False"

fun getattr_message :: "exc_class \<Rightarrow> bool" where
  "getattr_message KeyError = False"
| "getattr_message (Class c) = cls_message c"

text \<open>
  An exception object: an instance of a captured class with the arguments it was built
  from, a builtin \<^verbatim>\<open>RuntimeError\<close> with its message, or the exception of a failed
  constructor call.
\<close>

datatype exception =
    Instance exc_class ctor_args
  | RuntimeError py_str
  | CtorFailure ctor_failure

fun call_class :: "exc_class \<Rightarrow> ctor_args \<Rightarrow> ctor_failure + exception" where
  "call_class KeyError (Positional a) = Inr (Instance KeyError (Positional a))"
| "call_class KeyError (KeywordMessage a) =
     Inl (CtorTypeError ''KeyError() takes no keyword arguments'')"
| "call_class (Class c) args =
     (case cls_call c args of
        None \<Rightarrow> Inr (Instance (Class c) args)
      | Some f \<Rightarrow> Inl f)"

text \<open>
  A raised exception with its chaining attributes: \<^verbatim>\<open>__cause__\<close>, \<^verbatim>\<open>__context__\<close> (the
  exception that was being handled at the \<^verbatim>\<open>raise\<close>) and \<^verbatim>\<open>__suppress_context__\<close>
  (set by \<^verbatim>\<open>raise ... from\<close>). \<open>shown_chain\<close> is the exception that a traceback display
  chains to: the cause, or the context unless it is suppressed.
\<close>

record raised =
  r_exception :: exception
  r_cause :: "exception option"
  r_context :: "exception option"
  r_suppress_context :: bool

definition shown_chain :: "raised \<Rightarrow> exception option" where
  "shown_chain r =
     (case r_cause r of
        Some c \<Rightarrow> Some c
      | None \<Rightarrow> if r_suppress_context r then None else r_context r)"

definition raise_plain :: "exception \<Rightarrow> raised" where
  "raise_plain e =
     \<lparr>r_exception = e, r_cause = None, r_context = None, r_suppress_context = False\<rparr>"

definition raise_from_None :: "exception \<Rightarrow> exception \<Rightarrow> raised" where
  "raise_from_None e handled =
     \<lparr>r_exception = e, r_cause = None, r_context = Some handled, r_suppress_context = True\<rparr>"

text \<open>
  The message of an exception, \<^verbatim>\<open>str(e)\<close>: for an instance of the builtin \<^verbatim>\<open>KeyError\<close>
  built from one argument it is the \<^verbatim>\<open>repr\<close> of that argument (the behaviour the source
  works around); for an instance of another class it is what the class makes of the
  arguments; for a \<^verbatim>\<open>RuntimeError\<close> it is the message; for the exception of a failed
  constructor call it is that exception's text.
\<close>

fun exception_str :: "exception \<Rightarrow> string" where
  "exception_str (Instance KeyError args) = py_repr (ctor_arg args)"
| "exception_str (Instance (Class c) args) = cls_str c args"
| "exception_str (RuntimeError m) = chars m"
| "exception_str (CtorFailure (CtorTypeError t)) = t"
| "exception_str (CtorFailure (CtorOtherError n t)) = t"

text \<open>
  The same text where the builtin classes alone decide it: \<^verbatim>\<open>str(e)\<close> for an instance of
  the builtin \<^verbatim>\<open>KeyError\<close> built from one argument and for a \<^verbatim>\<open>RuntimeError\<close>.
\<close>

fun builtin_str :: "exception \<Rightarrow> string option" where
  "builtin_str (Instance KeyError (Positional m)) = Some (py_repr m)"
| "builtin_str (RuntimeError m) = Some (chars m)"
| "builtin_str _ = None"

text \<open>
  The wrapper object: \<^verbatim>\<open>self.exc_type\<close>, \<^verbatim>\<open>self.exc_msg\<close>, \<^verbatim>\<open>self.where\<close>.
\<close>

record exception_wrapper =
  exc_type :: exc_class
  exc_msg :: string
  where' :: string

text \<open>
  Objects live in a heap. A value is \<^verbatim>\<open>None\<close>, a string (immutable, held by value), a
  class, or a reference to a heap object. A heap object is an instance with its
  attributes, in the order of their first assignment, or an object of the runtime (an
  exception value, a traceback with its frames), of which the model knows nothing
  (\<open>'o\<close>).
\<close>

datatype pyval = VNone | VStr string | VClass exc_class | VRef nat

datatype 'o heap_obj = Attrs "(string \<times> pyval) list" | Native 'o

type_synonym 'o heap = "nat \<Rightarrow> 'o heap_obj option"

fun is_ref :: "pyval \<Rightarrow> bool" where
  "is_ref (VRef a) = True"
| "is_ref _ = False"

text \<open>
  The attribute assignment \<^verbatim>\<open>obj.k = v\<close>: it replaces the value of \<open>k\<close> or adds \<open>k\<close>; on
  something that is not an instance it raises (\<open>None\<close>).
\<close>

fun assign :: "string \<Rightarrow> pyval \<Rightarrow> (string \<times> pyval) list \<Rightarrow> (string \<times> pyval) list" where
  "assign k v [] = [(k, v)]"
| "assign k v ((k', v') # kvs) =
     (if k' = k then (k, v) # kvs else (k', v') # assign k v kvs)"

definition set_attr :: "'o heap \<Rightarrow> nat \<Rightarrow> string \<Rightarrow> pyval \<Rightarrow> 'o heap option" where
  "set_attr h a k v =
     (case h a of
        Some (Attrs kvs) \<Rightarrow> Some (h(a \<mapsto> Attrs (assign k v kvs)))
      | _ \<Rightarrow> None)"

text \<open>
  \<^verbatim>\<open>exc_info\<close> is the triple of \<^verbatim>\<open>sys.exc_info()\<close>: the class of the exception (\<^verbatim>\<open>None\<close>
  when no exception is being handled), the exception object and the traceback object.
\<close>

type_synonym exc_info = "exc_class option \<times> pyval \<times> pyval"

fun class_val :: "exc_class option \<Rightarrow> pyval" where
  "class_val None = VNone"
| "class_val (Some K) = VClass K"

text \<open>
  \<^verbatim>\<open>ExceptionWrapper.__init__(self, exc_info=None, where="in background")\<close>, on the heap
  \<open>h\<close> in which \<open>self\<close> is the address of the instance: three attribute assignments, in
  the order of the source. \<^verbatim>\<open>traceback.format_exception\<close> reads the heap as it is when
  it is called and is the parameter \<open>format_exception\<close>; \<^verbatim>\<open>sys.exc_info()\<close> is the
  parameter \<open>sys_exc_info\<close>. An argument left out is \<open>None\<close>. The result is the heap
  after the call, or \<open>None\<close> when an assignment raises.
\<close>

definition ExceptionWrapper_init ::
  "('o heap \<Rightarrow> exc_info \<Rightarrow> string list) \<Rightarrow> exc_info \<Rightarrow> 'o heap \<Rightarrow> nat \<Rightarrow> exc_info option
     \<Rightarrow> string option \<Rightarrow> 'o heap option" where
  "ExceptionWrapper_init format_exception sys_exc_info h self exc_info where_arg =
     (let exc_info1 = (case exc_info of None \<Rightarrow> sys_exc_info | Some ei \<Rightarrow> ei);
          where1 = (case where_arg of None \<Rightarrow> ''in background'' | Some w \<Rightarrow> w)
      in case set_attr h self ''exc_type'' (class_val (fst exc_info1)) of
           None \<Rightarrow> None
         | Some h1 \<Rightarrow>
             (case set_attr h1 self ''exc_msg''
                     (VStr (concat (format_exception h1 exc_info1))) of
                None \<Rightarrow> None
              | Some h2 \<Rightarrow> set_attr h2 self ''where'' (VStr where1)))"

text \<open>
  What \<^verbatim>\<open>reraise\<close> reads from \<^verbatim>\<open>self\<close> on a heap: \<^verbatim>\<open>self.exc_type\<close>, which must be a
  class, and the texts that the f-string makes of \<^verbatim>\<open>self.where\<close> and \<^verbatim>\<open>self.exc_msg\<close>.
  The text of a string is the string; the text of any other value, a reference among
  them, is what the runtime says of it on the heap of that moment (the parameter
  \<open>str_other\<close>).
\<close>

fun py_str_of :: "('o heap \<Rightarrow> pyval \<Rightarrow> string) \<Rightarrow> 'o heap \<Rightarrow> pyval \<Rightarrow> string" where
  "py_str_of str_other h (VStr s) = s"
| "py_str_of str_other h v = str_other h v"

definition read_wrapper ::
  "('o heap \<Rightarrow> pyval \<Rightarrow> string) \<Rightarrow> 'o heap \<Rightarrow> nat \<Rightarrow> exception_wrapper option" where
  "read_wrapper str_other h self =
     (case h self of
        Some (Attrs kvs) \<Rightarrow>
          (case (map_of kvs ''exc_type'', map_of kvs ''where'', map_of kvs ''exc_msg'') of
             (Some (VClass K), Some w, Some m) \<Rightarrow>
               Some \<lparr>exc_type = K, exc_msg = py_str_of str_other h m,
                     where' = py_str_of str_other h w\<rparr>
           | _ \<Rightarrow> None)
      | _ \<Rightarrow> None)"

text \<open>
  After the capture the process goes on. A step writes a heap object (it mutates the
  exception object, the traceback, a frame) or deletes one (the object is discarded).
\<close>

datatype 'o step = Write nat "'o heap_obj" | Delete nat

fun target :: "'o step \<Rightarrow> nat" where
  "target (Write a obj) = a"
| "target (Delete a) = a"

fun apply_step :: "'o step \<Rightarrow> 'o heap \<Rightarrow> 'o heap" where
  "apply_step (Write a obj) h = h(a \<mapsto> obj)"
| "apply_step (Delete a) h = h(a := None)"

text \<open>
  The outcome of a call: it returns a value or an exception leaves it.
\<close>

datatype 'a outcome = Returns 'a | Raises raised

text \<open>
  The message \<^verbatim>\<open>f"Caught {self.exc_type.__name__} {self.where}.\nOriginal {self.exc_msg}"\<close>.
\<close>

definition composite_message :: "exception_wrapper \<Rightarrow> string" where
  "composite_message self =
     ''Caught '' @ class_name (exc_type self) @ '' '' @ where' self @ ''.'' @ [CHR 0x0A]
       @ ''Original '' @ exc_msg self"

text \<open>
  The \<^verbatim>\<open>try\<close> statement at the end of \<^verbatim>\<open>reraise\<close>: a \<^verbatim>\<open>TypeError\<close> of the constructor
  is handled by \<^verbatim>\<open>raise RuntimeError(msg) from None\<close>; any other exception of the
  constructor propagates; an instance is raised.
\<close>

definition construct_and_raise :: "exc_class \<Rightarrow> py_str \<Rightarrow> raised" where
  "construct_and_raise cls msg =
     (case call_class cls (Positional msg) of
        Inl (CtorTypeError t) \<Rightarrow> raise_from_None (RuntimeError msg) (CtorFailure (CtorTypeError t))
      | Inl (CtorOtherError n t) \<Rightarrow> raise_plain (CtorFailure (CtorOtherError n t))
      | Inr exception \<Rightarrow> raise_plain exception)"

text \<open>
  \<^verbatim>\<open>ExceptionWrapper.reraise(self)\<close>, called while no other exception is being handled.
\<close>

definition reraise :: "exception_wrapper \<Rightarrow> unit outcome" where
  "reraise self =
     (let msg = Str (composite_message self) in
      if is_KeyError (exc_type self) then
        Raises (construct_and_raise (exc_type self) (KeyErrorMessage (chars msg)))
      else if getattr_message (exc_type self) then
        (case call_class (exc_type self) (KeywordMessage msg) of
           Inl f \<Rightarrow> Raises (raise_plain (CtorFailure f))
         | Inr exception \<Rightarrow> Raises (raise_plain exception))
      else Raises (construct_and_raise (exc_type self) msg))"

text \<open>
  The constructor takes the message that \<^verbatim>\<open>reraise\<close> hands it: on the keyword path
  (a true \<^verbatim>\<open>message\<close> attribute) the call returns an instance; on the positional path
  the call returns an instance or raises \<^verbatim>\<open>TypeError\<close>. \<^verbatim>\<open>KeyError\<close> takes any
  argument.
\<close>

fun takes_message :: "exc_class \<Rightarrow> py_str \<Rightarrow> bool" where
  "takes_message KeyError msg = True"
| "takes_message (Class c) msg =
     (if cls_message c then cls_call c (KeywordMessage msg) = None
      else (case cls_call c (Positional msg) of
              Some (CtorOtherError n t) \<Rightarrow> False
            | _ \<Rightarrow> True))"

text \<open>
  The class renders the message that \<^verbatim>\<open>reraise\<close> hands it as it is: the text of the
  instance built from the message is the message. Nothing is asked of a class whose
  positional call fails. The text of a \<^verbatim>\<open>KeyError\<close> is computed, not asked for.
\<close>

fun renders_message :: "exc_class \<Rightarrow> py_str \<Rightarrow> bool" where
  "renders_message KeyError msg = True"
| "renders_message (Class c) msg =
     (if cls_message c then cls_str c (KeywordMessage msg) = chars msg
      else (case cls_call c (Positional msg) of
              None \<Rightarrow> cls_str c (Positional msg) = chars msg
            | Some f \<Rightarrow> True))"

section \<open>Concrete inputs\<close>

text \<open>
  Exception classes for concrete runs. \<open>ValueError_class\<close> is the builtin
  \<^verbatim>\<open>ValueError\<close>. \<open>Labelled_class\<close> is
  \<^verbatim>\<open>class Labelled(Exception): message = "default"\<close>, whose inherited constructor takes no
  keyword. \<open>TwoArgs_class\<close> is a class with \<^verbatim>\<open>def __init__(self, code, detail)\<close>.
  \<open>Coded_class\<close> is a class with \<^verbatim>\<open>def __init__(self, code, message)\<close> and a property
  \<^verbatim>\<open>message\<close>. \<open>Described_class\<close> is a class with \<^verbatim>\<open>def __init__(self, message)\<close> and a
  property \<^verbatim>\<open>message\<close>. \<open>Prefixed_class\<close> is a class whose \<^verbatim>\<open>__init__(self, text)\<close> calls
  \<^verbatim>\<open>super().__init__("prefixed: " + text)\<close>. \<open>MissingKey_class\<close> is
  \<^verbatim>\<open>class MissingKey(KeyError): pass\<close>, whose text is the \<^verbatim>\<open>repr\<close> of its argument.
  \<open>Strict_class\<close> is a class whose \<^verbatim>\<open>__init__\<close> raises \<^verbatim>\<open>ValueError("bad text")\<close>.
\<close>

definition ValueError_class :: class_desc where
  "ValueError_class =
     \<lparr>cls_name = ''ValueError'', cls_message = False,
      cls_call = (\<lambda>args. case args of
                    Positional m \<Rightarrow> None
                  | KeywordMessage m \<Rightarrow>
                      Some (CtorTypeError ''ValueError() takes no keyword arguments'')),
      cls_str = (\<lambda>args. chars (ctor_arg args))\<rparr>"

definition Labelled_class :: class_desc where
  "Labelled_class =
     \<lparr>cls_name = ''Labelled'', cls_message = True,
      cls_call = (\<lambda>args. case args of
                    Positional m \<Rightarrow> None
                  | KeywordMessage m \<Rightarrow>
                      Some (CtorTypeError ''Labelled() takes no keyword arguments'')),
      cls_str = (\<lambda>args. chars (ctor_arg args))\<rparr>"

definition TwoArgs_class :: class_desc where
  "TwoArgs_class =
     \<lparr>cls_name = ''TwoArgs'', cls_message = False,
      cls_call = (\<lambda>args. case args of
                    Positional m \<Rightarrow>
                      Some (CtorTypeError
                        ''TwoArgs.__init__() missing 1 required positional argument: detail'')
                  | KeywordMessage m \<Rightarrow>
                      Some (CtorTypeError
                        ''TwoArgs.__init__() got an unexpected keyword argument message'')),
      cls_str = (\<lambda>args. chars (ctor_arg args))\<rparr>"

definition Coded_class :: class_desc where
  "Coded_class =
     \<lparr>cls_name = ''Coded'', cls_message = True,
      cls_call = (\<lambda>args. case args of
                    Positional m \<Rightarrow>
                      Some (CtorTypeError
                        ''Coded.__init__() missing 1 required positional argument: message'')
                  | KeywordMessage m \<Rightarrow>
                      Some (CtorTypeError
                        ''Coded.__init__() missing 1 required positional argument: code'')),
      cls_str = (\<lambda>args. chars (ctor_arg args))\<rparr>"

definition Described_class :: class_desc where
  "Described_class =
     \<lparr>cls_name = ''Described'', cls_message = True, cls_call = (\<lambda>args. None),
      cls_str = (\<lambda>args. chars (ctor_arg args))\<rparr>"

definition Prefixed_class :: class_desc where
  "Prefixed_class =
     \<lparr>cls_name = ''Prefixed'', cls_message = False,
      cls_call = (\<lambda>args. case args of
                    Positional m \<Rightarrow> None
                  | KeywordMessage m \<Rightarrow>
                      Some (CtorTypeError
                        ''Prefixed.__init__() got an unexpected keyword argument message'')),
      cls_str = (\<lambda>args. ''prefixed: '' @ chars (ctor_arg args))\<rparr>"

definition MissingKey_class :: class_desc where
  "MissingKey_class =
     \<lparr>cls_name = ''MissingKey'', cls_message = False,
      cls_call = (\<lambda>args. case args of
                    Positional m \<Rightarrow> None
                  | KeywordMessage m \<Rightarrow>
                      Some (CtorTypeError ''MissingKey() takes no keyword arguments'')),
      cls_str = (\<lambda>args. py_repr (ctor_arg args))\<rparr>"

definition Strict_class :: class_desc where
  "Strict_class =
     \<lparr>cls_name = ''Strict'', cls_message = False,
      cls_call = (\<lambda>args. Some (CtorOtherError ''ValueError'' ''bad text'')),
      cls_str = (\<lambda>args. chars (ctor_arg args))\<rparr>"

text \<open>
  A sample \<^verbatim>\<open>traceback.format_exception\<close> for heaps whose runtime objects are lists of
  lines: the lines of the object that the traceback reference points to, as the heap
  has them when it is called.
\<close>

definition format_lines :: "string list heap \<Rightarrow> exc_info \<Rightarrow> string list" where
  "format_lines h ei =
     (case snd (snd ei) of
        VRef a \<Rightarrow> (case h a of Some (Native ls) \<Rightarrow> ls | _ \<Rightarrow> [])
      | _ \<Rightarrow> [])"

text \<open>
  Modelled from the spec: a sample compatibility test for \<open>set_storage\<close> ("incompatible
  with the storage's element count"): sizes and strides have one length, no size is
  negative, and the last element addressed lies inside the storage.
\<close>

fun itemsize :: "dtype \<Rightarrow> nat" where
  "itemsize Half = 2"
| "itemsize Float = 4"
| "itemsize Double = 8"
| "itemsize Int32 = 4"
| "itemsize Long = 8"
| "itemsize Bool = 1"
| "itemsize QInt8 = 1"
| "itemsize QUInt8 = 1"
| "itemsize QInt32 = 4"

definition fits_nbytes :: fits where
  "fits_nbytes source dt storage_offset size' stride =
     (length size' = length stride \<and> 0 \<le> storage_offset \<and> list_all (\<lambda>n. 0 \<le> n) size' \<and>
      (list_ex (\<lambda>n. n = 0) size' \<or>
       (storage_offset + sum_list (map (\<lambda>(n, k). (n - 1) * k) (zip size' stride)) + 1)
          * int (itemsize dt) \<le> int (us_nbytes source)))"

text \<open>
  Modelled from the spec: a sample native metadata setter ("applies optional bit-flag
  metadata (e.g., conjugate/negation bits)"): the bits given replace those of the same
  name.
\<close>

definition set_metadata_bits :: "'h tensor \<Rightarrow> (string \<times> bool) list \<Rightarrow> 'h tensor" where
  "set_metadata_bits tensor metadata =
     tensor\<lparr>t_metadata := metadata @ filter (\<lambda>kv. fst kv \<notin> fst ` set metadata) (t_metadata tensor)\<rparr>"

section \<open>The pending-validation list is drained\<close>

lemma sparse_coo_tensor_unchecked:
  "sparse_coo_tensor vcoo a b c False d \<noteq> Inl StructuralError"
  by (cases "(vcoo, a, b, c, False, d)" rule: sparse_coo_tensor.cases) auto

lemma sparse_compressed_tensor_unchecked:
  "sparse_compressed_tensor vcomp a b c d l False \<noteq> Inl StructuralError"
  by (cases "(vcomp, a, b, c, d, l, False)" rule: sparse_compressed_tensor.cases) auto

lemma rebuild_sparse_tensor_no_structural:
  "fst (rebuild_sparse_tensor vcoo vcomp l data pending) \<noteq> Inl StructuralError"
  using sparse_coo_tensor_unchecked [of vcoo] sparse_compressed_tensor_unchecked [of vcomp]
  by (auto simp: rebuild_sparse_tensor_def split: list.splits sum.splits prod.splits)

lemma rebuild_coo3:
  "rebuild_sparse_tensor vcoo vcomp SparseCoo [ATensor i, ATensor v, ASize s] pending
     = (Inr (CooTensor i v s False), pending @ [CooTensor i v s False])"
  by (simp add: rebuild_sparse_tensor_def)

lemma rebuild_coo4_none:
  "rebuild_sparse_tensor vcoo vcomp SparseCoo [ATensor i, ATensor v, ASize s, ANone] pending
     = (Inr (CooTensor i v s False), pending @ [CooTensor i v s False])"
  by (simp add: rebuild_sparse_tensor_def)

lemma rebuild_coo4_bool:
  "rebuild_sparse_tensor vcoo vcomp SparseCoo [ATensor i, ATensor v, ASize s, ABool c] pending
     = (Inr (CooTensor i v s c), pending @ [CooTensor i v s c])"
  by (simp add: rebuild_sparse_tensor_def)

lemma rebuild_compressed:
  "l \<in> {SparseCsr, SparseCsc, SparseBsr, SparseBsc} \<Longrightarrow>
   rebuild_sparse_tensor vcoo vcomp l [ATensor ci, ATensor pi, ATensor v, ASize s] pending
     = (Inr (CompressedTensor l ci pi v s), pending @ [CompressedTensor l ci pi v s])"
  by (auto simp: rebuild_sparse_tensor_def)

lemma drain_invalid_coo:
  "\<not> vcoo i v s c \<Longrightarrow>
   validate_loaded_sparse_tensors vcoo vcomp [CooTensor i v s c] = (Some StructuralError, [])"
  by (simp add: validate_loaded_sparse_tensors_def try_finally_def validate_one_def)

lemma drain_invalid_compressed:
  "l \<in> {SparseCsr, SparseCsc, SparseBsr, SparseBsc} \<Longrightarrow> \<not> vcomp ci pi v s l \<Longrightarrow>
   validate_loaded_sparse_tensors vcoo vcomp [CompressedTensor l ci pi v s]
     = (Some StructuralError, [])"
  by (auto simp: validate_loaded_sparse_tensors_def try_finally_def validate_one_def)

text \<open>
  C1. After any sequence of \<^verbatim>\<open>_rebuild_sparse_tensor\<close> calls (any layouts, any data,
  starting from any pending list) followed by one call of
  \<^verbatim>\<open>_validate_loaded_sparse_tensors\<close>, the pending list is empty, whether the drain
  returns (\<open>None\<close>) or raises (\<open>Some e\<close>); what the drain returns or raises is what the
  loop over the list did.
\<close>

theorem pending_empty_after_drain:
  "snd (validate_loaded_sparse_tensors vcoo vcomp (load_pass vcoo vcomp calls pending)) = []
   \<and> fst (validate_loaded_sparse_tensors vcoo vcomp (load_pass vcoo vcomp calls pending))
       = validate_each vcoo vcomp (load_pass vcoo vcomp calls pending)"
  by (simp add: validate_loaded_sparse_tensors_def try_finally_def)

theorem pending_empty_after_drain_witness:
  "snd (validate_loaded_sparse_tensors coo_index_bounds compressed_index_bounds
     (load_pass coo_index_bounds compressed_index_bounds
        [(SparseCoo, [ATensor [[0, 5]], ATensor [[1, 2]], ASize [3]]),
         (Strided, []),
         (SparseCsr, [ATensor [[0, 2]], ATensor [[0, 1]], ATensor [[7, 8]], ASize [1, 2]])] [])) = []
   \<and> fst (validate_loaded_sparse_tensors coo_index_bounds compressed_index_bounds
     (load_pass coo_index_bounds compressed_index_bounds
        [(SparseCoo, [ATensor [[0, 5]], ATensor [[1, 2]], ASize [3]]),
         (Strided, []),
         (SparseCsr, [ATensor [[0, 2]], ATensor [[0, 1]], ATensor [[7, 8]], ASize [1, 2]])] []))
       = Some StructuralError"
  using pending_empty_after_drain [of coo_index_bounds compressed_index_bounds
        "[(SparseCoo, [ATensor [[0, 5]], ATensor [[1, 2]], ASize [3]]),
         (Strided, []),
         (SparseCsr, [ATensor [[0, 2]], ATensor [[0, 1]], ATensor [[7, 8]], ASize [1, 2]])]" "[]"]
  by (simp add: rebuild_sparse_tensor_def validate_one_def coo_index_bounds_def)

section \<open>Sparse structure is checked at the drain only\<close>

text \<open>
  C2. For every indices, values and size (and every validator, so also for inputs the
  validator rejects), \<^verbatim>\<open>_rebuild_sparse_tensor\<close> with the COO layout and a 3-tuple or a
  4-tuple returns the tensor built with \<^verbatim>\<open>check_invariants=False\<close> and appends it to the
  pending list; the same holds for CSR, CSC, BSR and BSC with their 4-tuple. No call of
  \<^verbatim>\<open>_rebuild_sparse_tensor\<close>, whatever its arguments, raises \<open>StructuralError\<close>; a tensor
  that the validator rejects makes the later drain raise it.
\<close>

theorem rebuild_sparse_defers_validation:
  "(data = [ATensor i, ATensor v, ASize s] \<or> data = [ATensor i, ATensor v, ASize s, ANone] \<longrightarrow>
      rebuild_sparse_tensor vcoo vcomp SparseCoo data pending
        = (Inr (CooTensor i v s False), pending @ [CooTensor i v s False]))
   \<and> rebuild_sparse_tensor vcoo vcomp SparseCoo [ATensor i, ATensor v, ASize s, ABool c] pending
        = (Inr (CooTensor i v s c), pending @ [CooTensor i v s c])
   \<and> (l \<in> {SparseCsr, SparseCsc, SparseBsr, SparseBsc} \<longrightarrow>
      rebuild_sparse_tensor vcoo vcomp l [ATensor ci, ATensor pi, ATensor v, ASize s] pending
        = (Inr (CompressedTensor l ci pi v s), pending @ [CompressedTensor l ci pi v s]))
   \<and> fst (rebuild_sparse_tensor vcoo vcomp l' data' pending) \<noteq> Inl StructuralError
   \<and> (\<not> vcoo i v s c \<longrightarrow>
        validate_loaded_sparse_tensors vcoo vcomp [CooTensor i v s c] = (Some StructuralError, []))
   \<and> (l \<in> {SparseCsr, SparseCsc, SparseBsr, SparseBsc} \<and> \<not> vcomp ci pi v s l \<longrightarrow>
        validate_loaded_sparse_tensors vcoo vcomp [CompressedTensor l ci pi v s]
          = (Some StructuralError, []))"
  using rebuild_coo3 [of vcoo vcomp i v s pending] rebuild_coo4_none [of vcoo vcomp i v s pending]
    rebuild_coo4_bool [of vcoo vcomp i v s c pending]
    rebuild_compressed [of l vcoo vcomp ci pi v s pending]
    rebuild_sparse_tensor_no_structural [of vcoo vcomp l' data' pending]
    drain_invalid_coo [of vcoo i v s c vcomp]
    drain_invalid_compressed [of l vcomp ci pi v s vcoo]
  by blast

theorem rebuild_sparse_defers_validation_witness:
  "rebuild_sparse_tensor coo_index_bounds compressed_index_bounds SparseCoo
      [ATensor [[0, 5]], ATensor [[1, 2]], ASize [3]] []
     = (Inr (CooTensor [[0, 5]] [[1, 2]] [3] False), [CooTensor [[0, 5]] [[1, 2]] [3] False])
   \<and> \<not> coo_index_bounds [[0, 5]] [[1, 2]] [3] False
   \<and> validate_loaded_sparse_tensors coo_index_bounds compressed_index_bounds
        [CooTensor [[0, 5]] [[1, 2]] [3] False] = (Some StructuralError, [])
   \<and> rebuild_sparse_tensor coo_index_bounds compressed_index_bounds SparseCsr
        [ATensor [[0, 2]], ATensor [[0, 7]], ATensor [[7, 8]], ASize [1, 2]] []
     = (Inr (CompressedTensor SparseCsr [[0, 2]] [[0, 7]] [[7, 8]] [1, 2]),
        [CompressedTensor SparseCsr [[0, 2]] [[0, 7]] [[7, 8]] [1, 2]])
   \<and> \<not> compressed_index_bounds [[0, 2]] [[0, 7]] [[7, 8]] [1, 2] SparseCsr
   \<and> validate_loaded_sparse_tensors coo_index_bounds compressed_index_bounds
        [CompressedTensor SparseCsr [[0, 2]] [[0, 7]] [[7, 8]] [1, 2]] = (Some StructuralError, [])"
proof -
  have a: "\<not> coo_index_bounds [[0, 5]] [[1, 2]] [3] False"
    by (simp add: coo_index_bounds_def)
  have b: "\<not> compressed_index_bounds [[0, 2]] [[0, 7]] [[7, 8]] [1, 2] SparseCsr"
    by (simp add: compressed_index_bounds_def)
  show ?thesis
    using a b rebuild_sparse_defers_validation
      [of "[ATensor [[0, 5]], ATensor [[1, 2]], ASize [3]]" "[[0, 5]]" "[[1, 2]]" "[3]"
          coo_index_bounds compressed_index_bounds "[]" False SparseCoo "[[0, 2]]" "[[0, 7]]"
          SparseCoo "[]"]
     rebuild_sparse_defers_validation
      [of "[]" "[[7, 8]]" "[[7, 8]]" "[1, 2]"
          coo_index_bounds compressed_index_bounds "[]" False SparseCsr "[[0, 2]]" "[[0, 7]]"
          SparseCoo "[]"]
    by simp
qed

section \<open>The message of \<open>reraise\<close>\<close>

text \<open>
  C3. \<^verbatim>\<open>reraise\<close> never returns: for every wrapper an exception leaves it. Let \<open>M\<close> be
  \<^verbatim>\<open>"Caught " + name + " " + where + ".\nOriginal " + exc_msg\<close>. When the captured class
  takes the message the way \<^verbatim>\<open>reraise\<close> hands it over (\<open>takes_message\<close>: the class is
  \<^verbatim>\<open>KeyError\<close>; or it has a true \<^verbatim>\<open>message\<close> attribute and its constructor accepts
  \<^verbatim>\<open>message=M\<close>; or it has none and its constructor, called with \<open>M\<close> alone, returns an
  instance or raises \<^verbatim>\<open>TypeError\<close>), the exception raised is the instance of the class
  built from exactly \<open>M\<close> (wrapped in \<^verbatim>\<open>KeyErrorMessage\<close> for \<^verbatim>\<open>KeyError\<close>, as the keyword
  \<^verbatim>\<open>message\<close> for a class with that attribute, as the sole argument otherwise) or the
  \<^verbatim>\<open>RuntimeError\<close> built from exactly \<open>M\<close>. Its message, \<^verbatim>\<open>str(e)\<close>, is exactly \<open>M\<close> when
  moreover the class renders the message it is built from as it is
  (\<open>renders_message\<close>); for \<^verbatim>\<open>KeyError\<close> and for the \<^verbatim>\<open>RuntimeError\<close> this is computed.
\<close>

theorem reraise_message:
  "\<exists>r. reraise self = Raises r
     \<and> (takes_message (exc_type self) (Str (composite_message self)) \<longrightarrow>
          r_exception r \<in>
            {Instance (exc_type self)
               (if is_KeyError (exc_type self)
                then Positional (KeyErrorMessage (composite_message self))
                else if getattr_message (exc_type self)
                then KeywordMessage (Str (composite_message self))
                else Positional (Str (composite_message self))),
             RuntimeError (Str (composite_message self))}
          \<and> (renders_message (exc_type self) (Str (composite_message self)) \<longrightarrow>
               exception_str (r_exception r) = composite_message self))"
proof (cases "exc_type self")
  case KeyError
  then show ?thesis
    by (simp add: reraise_def construct_and_raise_def raise_plain_def)
next
  case (Class c)
  show ?thesis
  proof (cases "cls_message c")
    case True
    with Class show ?thesis
      by (auto simp: reraise_def raise_plain_def Let_def split: option.splits)
  next
    case False
    with Class show ?thesis
      by (auto simp: reraise_def construct_and_raise_def raise_plain_def raise_from_None_def
          Let_def split: option.splits ctor_failure.splits)
  qed
qed

theorem reraise_message_witness:
  "\<exists>r. reraise \<lparr>exc_type = Class ValueError_class, exc_msg = ''Traceback: boom'',
                  where' = ''in worker 3''\<rparr> = Raises r \<and>
       exception_str (r_exception r)
         = ''Caught ValueError in worker 3.'' @ [CHR 0x0A] @ ''Original Traceback: boom''"
  using reraise_message [of "\<lparr>exc_type = Class ValueError_class, exc_msg = ''Traceback: boom'',
                  where' = ''in worker 3''\<rparr>"]
  by (auto simp: ValueError_class_def composite_message_def)

text \<open>
  The message of the raised error is not \<open>M\<close> for every class: a class whose
  \<^verbatim>\<open>__init__\<close> changes its text is raised with the changed text; a subclass of
  \<^verbatim>\<open>KeyError\<close> is not equal to \<^verbatim>\<open>KeyError\<close>, gets the plain string and shows its
  \<^verbatim>\<open>repr\<close>; an exception other than \<^verbatim>\<open>TypeError\<close> raised by the constructor passes the
  \<^verbatim>\<open>except TypeError\<close> clause and leaves \<^verbatim>\<open>reraise\<close> with its own text.
\<close>

theorem reraise_message_counterexample:
  "reraise \<lparr>exc_type = Class Prefixed_class, exc_msg = ''Traceback: boom'',
            where' = ''in worker 3''\<rparr>
     = Raises (raise_plain (Instance (Class Prefixed_class) (Positional (Str
         (''Caught Prefixed in worker 3.'' @ [CHR 0x0A] @ ''Original Traceback: boom'')))))
   \<and> exception_str (Instance (Class Prefixed_class) (Positional (Str
         (''Caught Prefixed in worker 3.'' @ [CHR 0x0A] @ ''Original Traceback: boom''))))
       = ''prefixed: Caught Prefixed in worker 3.'' @ [CHR 0x0A] @ ''Original Traceback: boom''
   \<and> ''prefixed: Caught Prefixed in worker 3.'' @ [CHR 0x0A] @ ''Original Traceback: boom''
       \<noteq> ''Caught Prefixed in worker 3.'' @ [CHR 0x0A] @ ''Original Traceback: boom''
   \<and> reraise \<lparr>exc_type = Class MissingKey_class, exc_msg = ''Traceback: boom'',
              where' = ''in worker 3''\<rparr>
     = Raises (raise_plain (Instance (Class MissingKey_class) (Positional (Str
         (''Caught MissingKey in worker 3.'' @ [CHR 0x0A] @ ''Original Traceback: boom'')))))
   \<and> exception_str (Instance (Class MissingKey_class) (Positional (Str
         (''Caught MissingKey in worker 3.'' @ [CHR 0x0A] @ ''Original Traceback: boom''))))
       = [CHR 0x27] @ ''Caught MissingKey in worker 3.'' @ [CHR 0x5C, CHR ''n'']
           @ ''Original Traceback: boom'' @ [CHR 0x27]
   \<and> [CHR 0x27] @ ''Caught MissingKey in worker 3.'' @ [CHR 0x5C, CHR ''n'']
           @ ''Original Traceback: boom'' @ [CHR 0x27]
       \<noteq> ''Caught MissingKey in worker 3.'' @ [CHR 0x0A] @ ''Original Traceback: boom''
   \<and> reraise \<lparr>exc_type = Class Strict_class, exc_msg = ''Traceback: boom'',
              where' = ''in worker 3''\<rparr>
     = Raises (raise_plain (CtorFailure (CtorOtherError ''ValueError'' ''bad text'')))
   \<and> exception_str (CtorFailure (CtorOtherError ''ValueError'' ''bad text'')) = ''bad text''"
  by (simp add: reraise_def construct_and_raise_def Prefixed_class_def MissingKey_class_def
      Strict_class_def composite_message_def str_repr_def escape_char_def Let_def)

section \<open>The fallback of \<open>reraise\<close>\<close>

lemma reraise_positional_fallback:
  "\<not> getattr_message (exc_type self)
     \<and> call_class (exc_type self) (Positional (Str (composite_message self))) = Inl (CtorTypeError t)
   \<longrightarrow> reraise self
         = Raises \<lparr>r_exception = RuntimeError (Str (composite_message self)), r_cause = None,
                   r_context = Some (CtorFailure (CtorTypeError t)), r_suppress_context = True\<rparr>
       \<and> exception_str (RuntimeError (Str (composite_message self))) = composite_message self
       \<and> shown_chain \<lparr>r_exception = RuntimeError (Str (composite_message self)), r_cause = None,
                   r_context = Some (CtorFailure (CtorTypeError t)), r_suppress_context = True\<rparr>
           = None"
  by (cases "exc_type self")
     (simp_all add: reraise_def construct_and_raise_def raise_from_None_def shown_chain_def)

text \<open>
  C5. \<open>Coded\<close> cannot be built from the composite message alone: the call
  \<^verbatim>\<open>Coded(msg)\<close> raises \<^verbatim>\<open>TypeError\<close>. It also has a true \<^verbatim>\<open>message\<close> attribute, so
  \<^verbatim>\<open>reraise\<close> takes line 687, \<^verbatim>\<open>raise self.exc_type(message=msg)\<close>, which stands
  outside the \<^verbatim>\<open>try\<close> of lines 688 to 693: the \<^verbatim>\<open>TypeError\<close> of \<^verbatim>\<open>Coded(message=msg)\<close>
  leaves \<^verbatim>\<open>reraise\<close>, and no \<^verbatim>\<open>RuntimeError\<close> with the composite message is raised.
  \<open>TwoArgs\<close>, which has no such attribute, reaches the \<^verbatim>\<open>try\<close> and gets the fallback,
  raised \<^verbatim>\<open>from None\<close>.
\<close>

theorem reraise_Coded_skips_fallback:
  "call_class (Class Coded_class)
      (Positional (Str (composite_message \<lparr>exc_type = Class Coded_class,
          exc_msg = ''Traceback: boom'', where' = ''in worker 3''\<rparr>)))
     = Inl (CtorTypeError ''Coded.__init__() missing 1 required positional argument: message'')
   \<and> reraise \<lparr>exc_type = Class Coded_class, exc_msg = ''Traceback: boom'',
              where' = ''in worker 3''\<rparr>
     = Raises \<lparr>r_exception = CtorFailure
                 (CtorTypeError ''Coded.__init__() missing 1 required positional argument: code''),
               r_cause = None, r_context = None, r_suppress_context = False\<rparr>
   \<and> CtorFailure (CtorTypeError ''Coded.__init__() missing 1 required positional argument: code'')
       \<noteq> RuntimeError (Str (composite_message \<lparr>exc_type = Class Coded_class,
          exc_msg = ''Traceback: boom'', where' = ''in worker 3''\<rparr>))
   \<and> reraise \<lparr>exc_type = Class TwoArgs_class, exc_msg = ''Traceback: boom'',
              where' = ''in worker 3''\<rparr>
     = Raises \<lparr>r_exception = RuntimeError (Str (composite_message \<lparr>exc_type = Class TwoArgs_class,
                   exc_msg = ''Traceback: boom'', where' = ''in worker 3''\<rparr>)),
               r_cause = None,
               r_context = Some (CtorFailure (CtorTypeError
                 ''TwoArgs.__init__() missing 1 required positional argument: detail'')),
               r_suppress_context = True\<rparr>"
  by (simp add: reraise_def construct_and_raise_def Coded_class_def TwoArgs_class_def
      raise_plain_def raise_from_None_def)

section \<open>\<open>KeyError\<close> messages stay plain text\<close>

lemma escape_char_nonempty: "1 \<le> length (escape_char q c)"
  by (simp add: escape_char_def)

lemma length_concat_escape: "length s \<le> length (concat (map (escape_char q) s))"
proof (induction s)
  case Nil
  then show ?case by simp
next
  case (Cons c s)
  then show ?case using escape_char_nonempty [of q c] by simp
qed

lemma str_repr_longer: "length s + 2 \<le> length (str_repr s)"
  using length_concat_escape [of s] by (simp add: str_repr_def Let_def)

lemma str_repr_differs: "str_repr s \<noteq> s"
  using str_repr_longer [of s] by auto

text \<open>
  C6. For a wrapper whose captured class is \<^verbatim>\<open>KeyError\<close>, \<^verbatim>\<open>reraise\<close> raises a
  \<^verbatim>\<open>KeyError\<close> built from the composite message wrapped in \<^verbatim>\<open>KeyErrorMessage\<close>, whose
  \<^verbatim>\<open>repr\<close> is the string itself: the text of the raised \<^verbatim>\<open>KeyError\<close> is the composite
  message, where the same message as a plain \<^verbatim>\<open>str\<close> would be shown quoted and escaped.
\<close>

theorem reraise_KeyError_plain_text:
  "exc_type self = KeyError \<longrightarrow>
     reraise self
       = Raises (raise_plain (Instance KeyError (Positional (KeyErrorMessage (composite_message self)))))
     \<and> py_repr (KeyErrorMessage (composite_message self)) = composite_message self
     \<and> builtin_str (Instance KeyError (Positional (KeyErrorMessage (composite_message self))))
         = Some (composite_message self)
     \<and> builtin_str (Instance KeyError (Positional (Str (composite_message self))))
         \<noteq> Some (composite_message self)"
  using str_repr_differs [of "composite_message self"]
  by (simp add: reraise_def construct_and_raise_def)

theorem reraise_KeyError_plain_text_witness:
  "reraise \<lparr>exc_type = KeyError, exc_msg = ''Traceback: boom'', where' = ''in worker 3''\<rparr>
     = Raises (raise_plain (Instance KeyError (Positional (KeyErrorMessage
         (''Caught KeyError in worker 3.'' @ [CHR 0x0A] @ ''Original Traceback: boom'')))))
   \<and> builtin_str (Instance KeyError (Positional (KeyErrorMessage
         (''Caught KeyError in worker 3.'' @ [CHR 0x0A] @ ''Original Traceback: boom''))))
       = Some (''Caught KeyError in worker 3.'' @ [CHR 0x0A] @ ''Original Traceback: boom'')
   \<and> builtin_str (Instance KeyError (Positional (Str
         (''Caught KeyError in worker 3.'' @ [CHR 0x0A] @ ''Original Traceback: boom''))))
       = Some ([CHR 0x27] @ ''Caught KeyError in worker 3.'' @ [CHR 0x5C, CHR ''n'']
                @ ''Original Traceback: boom'' @ [CHR 0x27])"
  using reraise_KeyError_plain_text
    [of "\<lparr>exc_type = KeyError, exc_msg = ''Traceback: boom'', where' = ''in worker 3''\<rparr>"]
  by (simp add: composite_message_def str_repr_def escape_char_def Let_def)

section \<open>The wrapper holds a rendered trace\<close>

lemma steps_frame:
  "list_all (\<lambda>s. target s \<noteq> self) steps \<Longrightarrow> fold apply_step steps h self = h self"
proof (induction steps arbitrary: h)
  case Nil
  then show ?case by simp
next
  case (Cons s steps)
  then show ?case by (cases s) simp_all
qed

lemma init_fresh:
  "h self = Some (Attrs []) \<Longrightarrow>
   ExceptionWrapper_init format_exception sys_exc_info h self exc_info where_arg
     = Some (h(self \<mapsto> Attrs
         [(''exc_type'', class_val (fst (case exc_info of None \<Rightarrow> sys_exc_info | Some e \<Rightarrow> e))),
          (''exc_msg'', VStr (concat (format_exception
              (h(self \<mapsto> Attrs [(''exc_type'',
                   class_val (fst (case exc_info of None \<Rightarrow> sys_exc_info | Some e \<Rightarrow> e)))]))
              (case exc_info of None \<Rightarrow> sys_exc_info | Some e \<Rightarrow> e)))),
          (''where'', VStr (case where_arg of None \<Rightarrow> ''in background'' | Some w \<Rightarrow> w))]))"
  by (simp add: ExceptionWrapper_init_def set_attr_def Let_def)

text \<open>
  C9. Called on a fresh instance, for every way of passing or leaving out \<^verbatim>\<open>exc_info\<close>
  and \<^verbatim>\<open>where\<close>, \<^verbatim>\<open>ExceptionWrapper.__init__\<close> returns and leaves the instance with
  three attributes: the class, the trace rendered by \<^verbatim>\<open>format_exception\<close> on the heap of
  the call and joined to one string, and the label (\<^verbatim>\<open>"in background"\<close> by default);
  every other heap object is as it was. None of the three attributes is a reference
  to a heap object. Whatever steps later write or delete the other heap objects (the
  exception object, the traceback, its frames), the instance has the same attributes,
  and what \<^verbatim>\<open>reraise\<close> then reads is the class, the label and the trace as rendered at
  the capture, whatever the runtime would say of the objects of the later heap.
\<close>

theorem capture_renders_at_once:
  "h self = Some (Attrs []) \<longrightarrow>
   (let ei = (case exc_info of None \<Rightarrow> sys_exc_info | Some e \<Rightarrow> e);
        w = (case where_arg of None \<Rightarrow> ''in background'' | Some w \<Rightarrow> w);
        trace = concat (format_exception (h(self \<mapsto> Attrs [(''exc_type'', class_val (fst ei))])) ei);
        attrs = [(''exc_type'', class_val (fst ei)), (''exc_msg'', VStr trace), (''where'', VStr w)]
    in ExceptionWrapper_init format_exception sys_exc_info h self exc_info where_arg
         = Some (h(self \<mapsto> Attrs attrs))
       \<and> list_all (\<lambda>kv. \<not> is_ref (snd kv)) attrs
       \<and> (list_all (\<lambda>s. target s \<noteq> self) steps \<longrightarrow>
            fold apply_step steps (h(self \<mapsto> Attrs attrs)) self = Some (Attrs attrs)
            \<and> (\<forall>K. fst ei = Some K \<longrightarrow>
                 read_wrapper str_other (fold apply_step steps (h(self \<mapsto> Attrs attrs))) self
                   = Some \<lparr>exc_type = K, exc_msg = trace, where' = w\<rparr>)))"
proof (intro impI)
  assume fresh: "h self = Some (Attrs [])"
  define ei where "ei = (case exc_info of None \<Rightarrow> sys_exc_info | Some e \<Rightarrow> e)"
  define w where "w = (case where_arg of None \<Rightarrow> ''in background'' | Some w \<Rightarrow> w)"
  define trace where
    "trace = concat (format_exception (h(self \<mapsto> Attrs [(''exc_type'', class_val (fst ei))])) ei)"
  define attrs where
    "attrs = [(''exc_type'', class_val (fst ei)), (''exc_msg'', VStr trace), (''where'', VStr w)]"
  have init: "ExceptionWrapper_init format_exception sys_exc_info h self exc_info where_arg
                = Some (h(self \<mapsto> Attrs attrs))"
    using fresh by (simp add: init_fresh ei_def w_def trace_def attrs_def)
  have norefs: "list_all (\<lambda>kv. \<not> is_ref (snd kv)) attrs"
    by (cases "fst ei") (simp_all add: attrs_def)
  have later: "fold apply_step steps (h(self \<mapsto> Attrs attrs)) self = Some (Attrs attrs)"
    if "list_all (\<lambda>s. target s \<noteq> self) steps"
    using steps_frame [OF that, of "h(self \<mapsto> Attrs attrs)"] by simp
  have rd: "read_wrapper str_other (fold apply_step steps (h(self \<mapsto> Attrs attrs))) self
              = Some \<lparr>exc_type = K, exc_msg = trace, where' = w\<rparr>"
    if "list_all (\<lambda>s. target s \<noteq> self) steps" and "fst ei = Some K" for K
    using later [OF that(1)] that(2) by (simp add: read_wrapper_def attrs_def)
  show "let ei = (case exc_info of None \<Rightarrow> sys_exc_info | Some e \<Rightarrow> e);
        w = (case where_arg of None \<Rightarrow> ''in background'' | Some w \<Rightarrow> w);
        trace = concat (format_exception (h(self \<mapsto> Attrs [(''exc_type'', class_val (fst ei))])) ei);
        attrs = [(''exc_type'', class_val (fst ei)), (''exc_msg'', VStr trace), (''where'', VStr w)]
    in ExceptionWrapper_init format_exception sys_exc_info h self exc_info where_arg
         = Some (h(self \<mapsto> Attrs attrs))
       \<and> list_all (\<lambda>kv. \<not> is_ref (snd kv)) attrs
       \<and> (list_all (\<lambda>s. target s \<noteq> self) steps \<longrightarrow>
            fold apply_step steps (h(self \<mapsto> Attrs attrs)) self = Some (Attrs attrs)
            \<and> (\<forall>K. fst ei = Some K \<longrightarrow>
                 read_wrapper str_other (fold apply_step steps (h(self \<mapsto> Attrs attrs))) self
                   = Some \<lparr>exc_type = K, exc_msg = trace, where' = w\<rparr>))"
    unfolding Let_def
    using init norefs later rd
    unfolding ei_def w_def trace_def attrs_def
    by blast
qed

theorem capture_renders_at_once_witness:
  "ExceptionWrapper_init format_lines (None, VNone, VNone)
      ((\<lambda>a. None)(1 \<mapsto> Attrs [], 7 \<mapsto> Native [''Traceback: '', ''boom'']))
      1 (Some (Some (Class ValueError_class), VRef 3, VRef 7)) (Some ''in worker 3'')
     = Some ((\<lambda>a. None)(1 \<mapsto> Attrs [(''exc_type'', VClass (Class ValueError_class)),
                                       (''exc_msg'', VStr ''Traceback: boom''),
                                       (''where'', VStr ''in worker 3'')],
                         7 \<mapsto> Native [''Traceback: '', ''boom'']))
   \<and> read_wrapper (\<lambda>h v. ''?'')
       (fold apply_step [Write 7 (Native [''Traceback: '', ''changed'']), Delete 3]
          ((\<lambda>a. None)(1 \<mapsto> Attrs [(''exc_type'', VClass (Class ValueError_class)),
                                  (''exc_msg'', VStr ''Traceback: boom''),
                                  (''where'', VStr ''in worker 3'')],
                      7 \<mapsto> Native [''Traceback: '', ''boom'']))) 1
     = Some \<lparr>exc_type = Class ValueError_class, exc_msg = ''Traceback: boom'',
             where' = ''in worker 3''\<rparr>
   \<and> concat (format_lines
       (fold apply_step [Write 7 (Native [''Traceback: '', ''changed'']), Delete 3]
          ((\<lambda>a. None)(1 \<mapsto> Attrs [(''exc_type'', VClass (Class ValueError_class)),
                                  (''exc_msg'', VStr ''Traceback: boom''),
                                  (''where'', VStr ''in worker 3'')],
                      7 \<mapsto> Native [''Traceback: '', ''boom''])))
       (Some (Class ValueError_class), VRef 3, VRef 7)) = ''Traceback: changed''"
proof -
  have fresh: "((\<lambda>a. None)(1 \<mapsto> Attrs [], 7 \<mapsto> Native [''Traceback: '', ''boom'']))
                 (1::nat) = Some (Attrs [])"
    by simp
  have upd: "((\<lambda>a. None)(1 \<mapsto> Attrs [], 7 \<mapsto> Native [''Traceback: '', ''boom'']))
               (1::nat \<mapsto> Attrs kvs)
             = (\<lambda>a. None)(1 \<mapsto> Attrs kvs, 7 \<mapsto> Native [''Traceback: '', ''boom''])" for kvs
    by (auto simp: fun_eq_iff)
  show ?thesis
    using fresh upd capture_renders_at_once [where
      h = "(\<lambda>a. None)(1 \<mapsto> Attrs [], 7 \<mapsto> Native [''Traceback: '', ''boom''])"
      and self = 1
      and exc_info = "Some (Some (Class ValueError_class), VRef 3, VRef 7)"
      and sys_exc_info = "(None, VNone, VNone)"
      and where_arg = "Some ''in worker 3''" and format_exception = format_lines
      and steps = "[Write 7 (Native [''Traceback: '', ''changed'']), Delete 3]"
      and str_other = "\<lambda>h v. ''?''"]
    by (simp add: Let_def format_lines_def)
qed

section \<open>Dense tensors are bound to their storage\<close>

text \<open>
  C7. \<^verbatim>\<open>_rebuild_tensor\<close> allocates a zero-size tensor with the dtype of the storage and
  the device of the untyped storage, then binds it to that storage with the offset, size
  and stride given. It returns exactly when the binding accepts them (and raises
  \<open>ShapeError\<close> otherwise); the tensor returned has the storage's dtype and device, the
  size and the stride given.
\<close>

theorem rebuild_tensor_binds_storage:
  "rebuild_tensor fits storage off sz sd
     = set_storage fits
         (torch_tensor_empty (ts_dtype storage) (us_device (ts_untyped_storage storage)))
         (ts_untyped_storage storage) off sz sd
   \<and> t_size (torch_tensor_empty (ts_dtype storage) (us_device (ts_untyped_storage storage))
               :: 'h tensor) = [0]
   \<and> (rebuild_tensor fits storage off sz sd = Inr (t :: 'h tensor) \<longrightarrow>
        t_dtype t = ts_dtype storage \<and> t_device t = us_device (ts_untyped_storage storage)
        \<and> t_size t = sz \<and> t_stride t = sd
        \<and> t_storage t = Some (ts_untyped_storage storage) \<and> t_storage_offset t = off)
   \<and> ((\<exists>t' :: 'h tensor. rebuild_tensor fits storage off sz sd = Inr t')
        \<longleftrightarrow> fits (ts_untyped_storage storage) (ts_dtype storage) off sz sd)
   \<and> (\<not> fits (ts_untyped_storage storage) (ts_dtype storage) off sz sd \<longrightarrow>
        (rebuild_tensor fits storage off sz sd :: error + 'h tensor) = Inl ShapeError)"
  by (auto simp: rebuild_tensor_def set_storage_def torch_tensor_empty_def)

theorem rebuild_tensor_binds_storage_witness:
  "\<exists>t :: nat tensor.
     rebuild_tensor fits_nbytes
       \<lparr>ts_dtype = Float, ts_untyped_storage = \<lparr>us_device = CUDA 1, us_nbytes = 24\<rparr>\<rparr>
       0 [2, 3] [3, 1] = Inr t
     \<and> t_dtype t = Float \<and> t_device t = CUDA 1 \<and> t_size t = [2, 3] \<and> t_stride t = [3, 1]"
proof -
  have f: "fits_nbytes \<lparr>us_device = CUDA 1, us_nbytes = 24\<rparr> Float 0 [2, 3] [3, 1]"
    by (simp add: fits_nbytes_def)
  show ?thesis
    using f rebuild_tensor_binds_storage [where 'h = nat, of fits_nbytes
      "\<lparr>ts_dtype = Float, ts_untyped_storage = \<lparr>us_device = CUDA 1, us_nbytes = 24\<rparr>\<rparr>"
      0 "[2, 3]" "[3, 1]"]
    by auto
qed

section \<open>Metadata is applied only when it is not empty\<close>

text \<open>
  C10. With \<^verbatim>\<open>metadata\<close> \<^verbatim>\<open>None\<close> or empty, the result of \<^verbatim>\<open>_rebuild_tensor_v2\<close> does
  not depend on the native setter: it is the tensor of \<^verbatim>\<open>_rebuild_tensor\<close> with
  \<^verbatim>\<open>requires_grad\<close> and \<^verbatim>\<open>_backward_hooks\<close> set from the arguments, and its metadata is
  that of the allocation. The hooks field of a returned tensor is always the argument.
  With a non-empty \<^verbatim>\<open>metadata\<close> the setter is applied once, to the tensor whose
  \<^verbatim>\<open>requires_grad\<close> is already set, before the hooks are stored.
\<close>

theorem rebuild_tensor_v2_metadata:
  "(metadata = None \<or> metadata = Some [] \<longrightarrow>
      rebuild_tensor_v2 fits set_native storage off sz sd requires_grad backward_hooks metadata
        = (case rebuild_tensor fits storage off sz sd of
             Inl e \<Rightarrow> Inl e
           | Inr t \<Rightarrow> Inr (t\<lparr>t_requires_grad := requires_grad,
                              t_backward_hooks := backward_hooks\<rparr>)))
   \<and> ((metadata = None \<or> metadata = Some [])
        \<and> rebuild_tensor_v2 fits set_native storage off sz sd requires_grad backward_hooks metadata
            = Inr t' \<longrightarrow>
        (\<exists>t. rebuild_tensor fits storage off sz sd = Inr t \<and> t_metadata t' = t_metadata t)
        \<and> t_metadata t' = [] \<and> t_requires_grad t' = requires_grad)
   \<and> (rebuild_tensor_v2 fits set_native storage off sz sd requires_grad backward_hooks metadata
         = Inr t' \<longrightarrow> t_backward_hooks t' = backward_hooks)
   \<and> (metadata = Some m \<and> m \<noteq> [] \<longrightarrow>
      rebuild_tensor_v2 fits set_native storage off sz sd requires_grad backward_hooks metadata
        = (case rebuild_tensor fits storage off sz sd of
             Inl e \<Rightarrow> Inl e
           | Inr t \<Rightarrow> Inr ((set_native (t\<lparr>t_requires_grad := requires_grad\<rparr>) m)
                              \<lparr>t_backward_hooks := backward_hooks\<rparr>)))"
  by (auto simp: rebuild_tensor_v2_def set_tensor_metadata_def Let_def rebuild_tensor_def
      set_storage_def torch_tensor_empty_def split: sum.splits if_splits)

theorem rebuild_tensor_v2_metadata_witness:
  "rebuild_tensor_v2 fits_nbytes set_metadata_bits
      \<lparr>ts_dtype = Float, ts_untyped_storage = \<lparr>us_device = CUDA 1, us_nbytes = 24\<rparr>\<rparr>
      0 [2, 3] [3, 1] True (Some (5::nat)) (Some [])
     = Inr \<lparr>t_dtype = Float, t_device = CUDA 1,
            t_storage = Some \<lparr>us_device = CUDA 1, us_nbytes = 24\<rparr>, t_storage_offset = 0,
            t_size = [2, 3], t_stride = [3, 1], t_requires_grad = True,
            t_backward_hooks = Some 5, t_metadata = []\<rparr>
   \<and> rebuild_tensor_v2 fits_nbytes set_metadata_bits
      \<lparr>ts_dtype = Float, ts_untyped_storage = \<lparr>us_device = CUDA 1, us_nbytes = 24\<rparr>\<rparr>
      0 [2, 3] [3, 1] True (Some (5::nat)) (Some [(''conj'', True)])
     = Inr \<lparr>t_dtype = Float, t_device = CUDA 1,
            t_storage = Some \<lparr>us_device = CUDA 1, us_nbytes = 24\<rparr>, t_storage_offset = 0,
            t_size = [2, 3], t_stride = [3, 1], t_requires_grad = True,
            t_backward_hooks = Some 5, t_metadata = [(''conj'', True)]\<rparr>"
  using rebuild_tensor_v2_metadata [where metadata = "Some []" and fits = fits_nbytes
      and set_native = "set_metadata_bits :: nat tensor \<Rightarrow> _" and off = 0 and sz = "[2, 3]"
      and sd = "[3, 1]" and requires_grad = True and backward_hooks = "Some 5"
      and storage = "\<lparr>ts_dtype = Float,
                       ts_untyped_storage = \<lparr>us_device = CUDA 1, us_nbytes = 24\<rparr>\<rparr>"]
    rebuild_tensor_v2_metadata [where metadata = "Some [(''conj'', True)]"
      and m = "[(''conj'', True)]" and fits = fits_nbytes
      and set_native = "set_metadata_bits :: nat tensor \<Rightarrow> _" and off = 0 and sz = "[2, 3]"
      and sd = "[3, 1]" and requires_grad = True and backward_hooks = "Some 5"
      and storage = "\<lparr>ts_dtype = Float,
                       ts_untyped_storage = \<lparr>us_device = CUDA 1, us_nbytes = 24\<rparr>\<rparr>"]
  by (simp add: rebuild_tensor_def set_storage_def torch_tensor_empty_def fits_nbytes_def
      set_metadata_bits_def)

section \<open>Quantization schemes\<close>

text \<open>
  C4. \<^verbatim>\<open>_rebuild_qtensor\<close> dispatches on the scheme tag. For the per-tensor-affine tag it
  allocates with the scalar scale and zero point. For the per-channel-affine tag with
  list-typed scales and zero points it allocates with the scales as a \<^verbatim>\<open>double\<close> tensor
  and the zero points as a \<^verbatim>\<open>long\<close> tensor on the storage's device; for the
  float-qparams tag both are \<^verbatim>\<open>float\<close> tensors on that device. In each case the tensor
  is then bound to the storage and gets its flag and hooks. For every other first
  element of the tuple it raises the error for an unsupported scheme.
\<close>

theorem rebuild_qtensor_dispatch:
  "rebuild_qtensor fits storage off sz sd [QScheme PerTensorAffine, QNumber (scale :: 'n), QNumber zero_point]
       requires_grad backward_hooks
     = (case set_storage fits
               (empty_quantized sz (ts_dtype storage) (ts_device storage)
                  (PerTensorAffineQuantizer scale zero_point))
               (ts_untyped_storage storage) off sz sd of
          Inl e \<Rightarrow> Inl e
        | Inr t \<Rightarrow> Inr (t\<lparr>t_requires_grad := requires_grad, t_backward_hooks := backward_hooks\<rparr>))
   \<and> rebuild_qtensor fits storage off sz sd
         [QScheme PerChannelAffine, QList (scales :: 'n list), QList zero_points, QNumber axis]
         requires_grad backward_hooks
     = (case set_storage fits
               (empty_quantized sz (ts_dtype storage) (ts_device storage)
                  (PerChannelAffineQuantizer Double (ts_device storage) scales
                     Long (ts_device storage) zero_points axis))
               (ts_untyped_storage storage) off sz sd of
          Inl e \<Rightarrow> Inl e
        | Inr t \<Rightarrow> Inr (t\<lparr>t_requires_grad := requires_grad, t_backward_hooks := backward_hooks\<rparr>))
   \<and> rebuild_qtensor fits storage off sz sd
         [QScheme PerChannelAffineFloatQParams, QList scales, QList zero_points, QNumber axis]
         requires_grad backward_hooks
     = (case set_storage fits
               (empty_quantized sz (ts_dtype storage) (ts_device storage)
                  (PerChannelAffineQuantizer Float (ts_device storage) scales
                     Float (ts_device storage) zero_points axis))
               (ts_untyped_storage storage) off sz sd of
          Inl e \<Rightarrow> Inl e
        | Inr t \<Rightarrow> Inr (t\<lparr>t_requires_grad := requires_grad, t_backward_hooks := backward_hooks\<rparr>))
   \<and> (tag \<notin> {QScheme PerTensorAffine, QScheme PerChannelAffine,
                QScheme PerChannelAffineFloatQParams} \<longrightarrow>
        (rebuild_qtensor fits storage off sz sd (tag # rest) requires_grad backward_hooks
           :: error + ('h, 'n) qtensor) = Inl UnsupportedSchemeError)"
  by (simp add: rebuild_qtensor_def)

theorem rebuild_qtensor_dispatch_witness:
  "(rebuild_qtensor fits_nbytes
       \<lparr>ts_dtype = QInt8, ts_untyped_storage = \<lparr>us_device = CPU, us_nbytes = 6\<rparr>\<rparr>
       0 [2, 3] [3, 1] [QScheme PerChannelAffine, QList [1, 2::int], QList [0, 5], QNumber 0]
       False (None :: nat option))
     = Inr \<lparr>t_dtype = QInt8, t_device = CPU,
            t_storage = Some \<lparr>us_device = CPU, us_nbytes = 6\<rparr>, t_storage_offset = 0,
            t_size = [2, 3], t_stride = [3, 1], t_requires_grad = False,
            t_backward_hooks = None, t_metadata = [],
            qt_quantizer = PerChannelAffineQuantizer Double CPU [1, 2] Long CPU [0, 5] 0\<rparr>
   \<and> (rebuild_qtensor fits_nbytes
       \<lparr>ts_dtype = QInt8, ts_untyped_storage = \<lparr>us_device = CPU, us_nbytes = 6\<rparr>\<rparr>
       0 [2, 3] [3, 1] [QScheme PerTensorSymmetric, QNumber (1::int), QNumber 0]
       False (None :: nat option) :: error + (nat, int) qtensor)
     = Inl UnsupportedSchemeError"
  using rebuild_qtensor_dispatch [of fits_nbytes
      "\<lparr>ts_dtype = QInt8, ts_untyped_storage = \<lparr>us_device = CPU, us_nbytes = 6\<rparr>\<rparr>"
      0 "[2, 3]" "[3, 1]" "1::int" 0 False "None :: nat option" "[1, 2::int]" "[0, 5::int]" 0
      "QScheme PerTensorSymmetric :: int qparam" "[QNumber (1::int), QNumber 0]"]
  by (simp add: set_storage_def empty_quantized_def fits_nbytes_def ts_device_def)

section \<open>Object state is replayed onto a parameter\<close>

lemma apply_state_SDict: "apply_state (SDict d) obj = (setattr_items d obj, None)"
  by (cases d) simp_all

lemma setattr_items_attrs:
  "p_attrs (setattr_items d obj) = p_attrs obj ++ map_of (rev d)"
  by (induction d arbitrary: obj)
     (auto simp: setattr_def map_add_def fun_eq_iff split: option.splits)

text \<open>
  C8. \<^verbatim>\<open>_rebuild_parameter_with_state\<close> builds the parameter of \<^verbatim>\<open>_rebuild_parameter\<close>
  and replays the state on it. A dict is applied item by item, in order; a pair of dicts
  (or of \<^verbatim>\<open>None\<close> and a dict) is applied first component first; a tuple whose length is
  not 2 raises \<open>StateError\<close> and leaves the parameter without any attribute set.
  Applying the items of a dict gives the attribute map overridden by the dict, a later
  item of a key winning over an earlier one.
\<close>

theorem set_obj_state_replay:
  "rebuild_parameter_with_state data requires_grad backward_hooks (SDict d)
     = (setattr_items d (rebuild_parameter data requires_grad backward_hooks), None)
   \<and> rebuild_parameter_with_state data requires_grad backward_hooks (STuple [SDict d, SDict s])
     = (setattr_items s (setattr_items d (rebuild_parameter data requires_grad backward_hooks)),
        None)
   \<and> rebuild_parameter_with_state data requires_grad backward_hooks (STuple [SNone, SDict s])
     = (setattr_items s (rebuild_parameter data requires_grad backward_hooks), None)
   \<and> (length xs \<noteq> 2 \<longrightarrow>
        rebuild_parameter_with_state data requires_grad backward_hooks (STuple xs)
          = (rebuild_parameter data requires_grad backward_hooks, Some StateError))
   \<and> p_attrs (rebuild_parameter data requires_grad backward_hooks
                :: ('d, 'h, 'v) parameter) = (\<lambda>k. None)
   \<and> p_attrs (setattr_items d (obj :: ('d, 'h, 'v) parameter)) = p_attrs obj ++ map_of (rev d)"
proof -
  have a: "rebuild_parameter_with_state data requires_grad backward_hooks (SDict d)
     = (setattr_items d (rebuild_parameter data requires_grad backward_hooks), None)"
    by (simp add: rebuild_parameter_with_state_def rebuild_parameter_def set_obj_state_def
        apply_state_SDict del: apply_state.simps(1))
  have b: "rebuild_parameter_with_state data requires_grad backward_hooks
             (STuple [SDict d, SDict s])
     = (setattr_items s (setattr_items d (rebuild_parameter data requires_grad backward_hooks)),
        None)"
    by (simp add: rebuild_parameter_with_state_def rebuild_parameter_def set_obj_state_def
        apply_state_SDict del: apply_state.simps(1))
  have c: "rebuild_parameter_with_state data requires_grad backward_hooks
             (STuple [SNone, SDict s])
     = (setattr_items s (rebuild_parameter data requires_grad backward_hooks), None)"
    by (simp add: rebuild_parameter_with_state_def rebuild_parameter_def set_obj_state_def
        apply_state_SDict del: apply_state.simps(1))
  have d: "length xs \<noteq> 2 \<longrightarrow>
        rebuild_parameter_with_state data requires_grad backward_hooks (STuple xs)
          = (rebuild_parameter data requires_grad backward_hooks, Some StateError)"
    by (simp add: rebuild_parameter_with_state_def rebuild_parameter_def set_obj_state_def)
  have e: "p_attrs (rebuild_parameter data requires_grad backward_hooks
                :: ('d, 'h, 'v) parameter) = (\<lambda>k. None)"
    by (simp add: rebuild_parameter_def Parameter_def)
  have f: "p_attrs (setattr_items d obj) = p_attrs obj ++ map_of (rev d)"
    by (simp add: setattr_items_attrs)
  from a b c d e f show ?thesis by blast
qed

theorem set_obj_state_replay_witness:
  "fst (rebuild_parameter_with_state (0::nat) True (None :: nat option)
     (STuple [SDict [(''gain'', 1::int), (''tag'', 2), (''gain'', 3)], SDict [(''slot'', 4)]]))
     = \<lparr>p_data = 0, p_requires_grad = True, p_backward_hooks = None,
        p_attrs = [''gain'' \<mapsto> 3, ''tag'' \<mapsto> 2, ''slot'' \<mapsto> 4]\<rparr>
   \<and> rebuild_parameter_with_state (0::nat) True (None :: nat option)
       (STuple [SDict [(''gain'', 1::int)], SDict [(''slot'', 4)], SNone])
     = (\<lparr>p_data = 0, p_requires_grad = True, p_backward_hooks = None, p_attrs = (\<lambda>k. None)\<rparr>,
        Some StateError)"
  using set_obj_state_replay [of "0::nat" True "None :: nat option"
      "[(''gain'', 1::int), (''tag'', 2), (''gain'', 3)]" "[(''slot'', 4)]"
      "[SDict [(''gain'', 1::int)], SDict [(''slot'', 4)], SNone]"
      "\<lparr>p_data = 0::nat, p_requires_grad = True, p_backward_hooks = None :: nat option,
         p_attrs = (\<lambda>k. None)\<rparr>"]
  by (auto simp: rebuild_parameter_def Parameter_def setattr_def fun_eq_iff)

end
